theory Spec2Isabelle
  imports Complex_Main "HOL-Library.Sublist" "HOL-Library.AList" "HOL-Library.Product_Lexorder"
    "HOL-Library.Multiset"
begin

section \<open>Strings\<close>

text \<open>
  Python strings are modelled as \<open>string\<close> (lists of 8-bit characters), so the
  model covers ASCII text.  \<open>str.lower\<close> maps \<open>A\<close>..\<open>Z\<close> to \<open>a\<close>..\<open>z\<close> and leaves
  every other character alone; \<open>needle in haystack\<close> is contiguous containment.
\<close>

definition lower_char :: "char \<Rightarrow> char" where
  "lower_char c =
     (case map_of (zip ''ABCDEFGHIJKLMNOPQRSTUVWXYZ'' ''abcdefghijklmnopqrstuvwxyz'') c of
        Some d \<Rightarrow> d
      | None \<Rightarrow> c)"

definition lower :: "string \<Rightarrow> string" where
  "lower s = map lower_char s"

definition str_in :: "string \<Rightarrow> string \<Rightarrow> bool" where
  "str_in needle haystack = sublist needle haystack"

text \<open>ASCII whitespace as \<open>str.strip\<close> and \<open>\s\<close> see it: tab, line feed, vertical tab,
  form feed, carriage return, the separators 28..31 and the space.\<close>

definition is_space :: "char \<Rightarrow> bool" where
  "is_space c = (let n = (of_char c :: nat) in (9 \<le> n \<and> n \<le> 13) \<or> (28 \<le> n \<and> n \<le> 32))"

definition strip :: "string \<Rightarrow> string" where
  "strip s = rev (dropWhile is_space (rev (dropWhile is_space s)))"

section \<open>Financial term dictionaries\<close>

text \<open>A \<open>dict\<close> literal keeps its insertion order, so each dictionary is the list of
  its items in the order of the source.\<close>

type_synonym term_dict = "(string \<times> int) list"

definition RT :: term_dict where
  "RT = [(''revenue from operations'', 1), (''Total Revenue'', 2), (''Turnover'', 3),
         (''Net Sales'', 4), (''Gross Revenue'', 5), (''Operating Revenue'', 6),
         (''Revenues'', 7), (''Receipts'', 8), (''Income from Operations'', 9),
         (''Business Income'', 10), (''Gross Sales'', 11)]"

definition OPT :: term_dict where
  "OPT = [(''Operating Profit'', 1), (''EBIT'', 2), (''Earnings Before Interest and Tax'', 3),
          (''Profit Before Tax'', 4), (''PBIT'', 5), (''Operating Income'', 6),
          (''Operating Earnings'', 7), (''Core Earnings'', 8), (''NOP'', 9), (''NOPAT'', 10),
          (''Operating Margin'', 11), (''Pre-Tax Operating Profit'', 12)]"

definition NPT :: term_dict where
  "NPT = [(''Net Profit'', 1), (''Net Income'', 2), (''Profit After Tax'', 3), (''PAT'', 4),
          (''Earnings After Tax'', 5), (''Final Profit'', 6), (''Net Earnings'', 7),
          (''Total Comprehensive Income'', 8), (''Post-Tax Profit'', 9)]"

section \<open>Priority-ranked synonym matching\<close>

text \<open>\<open>min(matches, key=...)\<close> walks the list once and replaces its candidate only by a
  strictly smaller key, so among equal keys the first item stays.\<close>

fun min_by :: "('a \<Rightarrow> int) \<Rightarrow> 'a \<Rightarrow> 'a list \<Rightarrow> 'a" where
  "min_by key best [] = best"
| "min_by key best (x # xs) = (if key x < key best then min_by key x xs else min_by key best xs)"

definition term_matches :: "string \<Rightarrow> string \<times> int \<Rightarrow> bool" where
  "term_matches row_text item = str_in (lower (fst item)) (lower row_text)"

definition select_highest_priority :: "term_dict \<Rightarrow> string option \<Rightarrow> string option" where
  "select_highest_priority term_dict row_text =
     (case row_text of
        None \<Rightarrow> None
      | Some text \<Rightarrow>
          (case filter (term_matches text) term_dict of
             [] \<Rightarrow> None
           | m # ms \<Rightarrow> Some (fst (min_by snd m ms))))"

section \<open>Python values and errors\<close>

text \<open>
  The values that reach the result dictionaries: \<open>None\<close>, the floats produced by the local
  parse, and whatever \<open>json.loads\<close> delivers for the language-model answer (JSON null,
  booleans, integers, floats, strings and objects; JSON arrays are outside the model, the
  expected answer has none).  The float type \<open>'f\<close> is a parameter: Python's built-in
  \<open>float(s)\<close> is passed in as \<open>flt :: string \<Rightarrow> 'f option\<close>, with \<open>None\<close> for its
  \<open>ValueError\<close>, and the truth value of a float as \<open>fbool :: 'f \<Rightarrow> bool\<close>.
\<close>

datatype 'f pyval =
    PNone
  | PBool bool
  | PInt int
  | PFloat 'f
  | PStr string
  | PDict "(string \<times> 'f pyval) list"

type_synonym 'f pydict = "(string \<times> 'f pyval) list"

datatype py_error = ValueError | TypeError | IndexError | APIError

text \<open>\<open>bool(v)\<close>, as \<open>any\<close> and \<open>if\<close> apply it.\<close>

fun truthy :: "('f \<Rightarrow> bool) \<Rightarrow> 'f pyval \<Rightarrow> bool" where
  "truthy fbool PNone = False"
| "truthy fbool (PBool b) = b"
| "truthy fbool (PInt i) = (i \<noteq> 0)"
| "truthy fbool (PFloat x) = fbool x"
| "truthy fbool (PStr s) = (s \<noteq> [])"
| "truthy fbool (PDict d) = (d \<noteq> [])"

text \<open>\<open>any(d.values())\<close>.\<close>

definition any_values :: "('f \<Rightarrow> bool) \<Rightarrow> 'f pydict \<Rightarrow> bool" where
  "any_values fbool d = list_ex (\<lambda>kv. truthy fbool (snd kv)) d"

text \<open>\<open>d[k] = v\<close> keeps the position of an existing key and appends a new one, which is
  \<open>AList.update\<close>; \<open>d.get(k)\<close> is \<open>map_of d k\<close>.\<close>

definition dict_set :: "string \<Rightarrow> 'f pyval \<Rightarrow> 'f pydict \<Rightarrow> 'f pydict" where
  "dict_set k v d = AList.update k v d"

section \<open>A decimal reading of \<open>float\<close>\<close>

text \<open>
  The concrete inputs below need some \<open>float\<close>.  \<open>dec_float\<close> reads an optional sign,
  digits, and an optional point followed by digits, as an exact rational; on such a
  literal \<open>float\<close> returns the binary64 number nearest to that rational (the rational
  itself when it is a small integer or a small multiple of a power of 1/2).  Every other
  string is rejected; \<open>float\<close> also rejects the placeholder cells used below (\<open>N.A.\<close>),
  while it accepts exponents, \<open>inf\<close>, \<open>nan\<close>, underscores and surrounding blanks, which
  are not used below.  A float is true when it is not zero.
\<close>

definition is_digit :: "char \<Rightarrow> bool" where
  "is_digit c = (c \<in> set ''0123456789'')"

definition digit_val :: "char \<Rightarrow> nat" where
  "digit_val c = (case map_of (zip ''0123456789'' [0, 1, 2, 3, 4, 5, 6, 7, 8, 9]) c of
                    Some n \<Rightarrow> n | None \<Rightarrow> 0)"

definition digits_val :: "string \<Rightarrow> nat" where
  "digits_val s = foldl (\<lambda>acc c. 10 * acc + digit_val c) 0 s"

definition dec_unsigned :: "string \<Rightarrow> rat option" where
  "dec_unsigned s =
     (let ip = takeWhile is_digit s; rest = dropWhile is_digit s in
      case rest of
        [] \<Rightarrow> if ip = [] then None else Some (of_nat (digits_val ip))
      | c # fp \<Rightarrow>
          if c = CHR ''.'' \<and> list_all is_digit fp \<and> (ip \<noteq> [] \<or> fp \<noteq> [])
          then Some (of_nat (digits_val (ip @ fp)) / of_nat (10 ^ length fp))
          else None)"

definition dec_float :: "string \<Rightarrow> rat option" where
  "dec_float s =
     (case s of
        [] \<Rightarrow> None
      | c # r \<Rightarrow>
          if c = CHR ''-'' then map_option uminus (dec_unsigned r)
          else if c = CHR ''+'' then dec_unsigned r
          else dec_unsigned s)"

definition rat_bool :: "rat \<Rightarrow> bool" where
  "rat_bool x = (x \<noteq> 0)"

section \<open>Tables and value extraction\<close>

text \<open>A table of \<open>pdfplumber\<close> is a list of rows, a row a list of cells, a cell a string
  or \<open>None\<close>.  \<open>extract_table_or_text\<close> hands the extractor a table, the text read by
  character recognition, or \<open>None\<close>.\<close>

type_synonym cell = "string option"
type_synonym row = "cell list"
type_synonym table = "row list"

datatype located = Table table | Text string | Nothing

record 'f fin_data =
  current_quarter :: "'f pydict"
  annual_data :: "'f pydict"

definition initial_data :: "'f fin_data" where
  "initial_data =
     \<lparr> current_quarter = [(''Revenue'', PNone), (''Operating Profit'', PNone), (''Net Profit'', PNone)],
       annual_data = [(''Revenue'', PNone), (''Operating Profit'', PNone), (''Net Profit'', PNone)] \<rparr>"

text \<open>\<open>if cell\<close>: a cell counts when it is a non-empty string.\<close>

definition cell_truthy :: "cell \<Rightarrow> bool" where
  "cell_truthy c = (case c of None \<Rightarrow> False | Some s \<Rightarrow> s \<noteq> [])"

definition cell_str :: "cell \<Rightarrow> string" where
  "cell_str c = (case c of None \<Rightarrow> ''None'' | Some s \<Rightarrow> s)"

text \<open>The two tests of the header loop: \<open>cell and "Particular" in str(cell)\<close> and
  \<open>cell and "year ended" in str(cell).lower()\<close>.\<close>

definition is_particular_cell :: "cell \<Rightarrow> bool" where
  "is_particular_cell c = (cell_truthy c \<and> str_in ''Particular'' (cell_str c))"

definition is_year_ended_cell :: "cell \<Rightarrow> bool" where
  "is_year_ended_cell c = (cell_truthy c \<and> str_in ''year ended'' (lower (cell_str c)))"

text \<open>The loop over \<open>enumerate(header)\<close>: each marker cell overwrites the index found
  before it.\<close>

fun scan_header :: "row \<Rightarrow> nat \<Rightarrow> nat option \<times> nat option \<Rightarrow> nat option \<times> nat option" where
  "scan_header [] i acc = acc"
| "scan_header (c # rest) i (cur, ann) =
     scan_header rest (Suc i)
       (if is_particular_cell c then Some (i + 1) else cur,
        if is_year_ended_cell c then Some i else ann)"

definition column_indices :: "row \<Rightarrow> nat option \<times> nat option" where
  "column_indices header = scan_header header 0 (None, None)"

text \<open>\<open>s.replace(",", "")\<close>.\<close>

definition remove_commas :: "string \<Rightarrow> string" where
  "remove_commas s = filter (\<lambda>c. c \<noteq> CHR '','') s"

text \<open>\<open>float(row[col].replace(",", "")) if col < len(row) and row[col] else None\<close>.\<close>

definition cell_value :: "(string \<Rightarrow> 'f option) \<Rightarrow> nat \<Rightarrow> row \<Rightarrow> py_error + 'f pyval" where
  "cell_value flt col r =
     (if col < length r \<and> cell_truthy (r ! col)
      then (case flt (remove_commas (cell_str (r ! col))) of
              None \<Rightarrow> Inl ValueError
            | Some x \<Rightarrow> Inr (PFloat x))
      else Inr PNone)"

text \<open>The two assignments guarded by one match: the current-quarter value, then the
  annual value, of one metric.\<close>

definition set_metric ::
  "(string \<Rightarrow> 'f option) \<Rightarrow> nat \<Rightarrow> nat \<Rightarrow> row \<Rightarrow> string \<Rightarrow> 'f fin_data \<Rightarrow> py_error + 'f fin_data" where
  "set_metric flt cur ann r metric d =
     (case cell_value flt cur r of
        Inl e \<Rightarrow> Inl e
      | Inr v \<Rightarrow>
          (case cell_value flt ann r of
             Inl e \<Rightarrow> Inl e
           | Inr w \<Rightarrow>
               Inr (d\<lparr> current_quarter := dict_set metric v (current_quarter d),
                       annual_data := dict_set metric w (annual_data d) \<rparr>)))"

text \<open>\<open>if revenue_match:\<close> tests the selected synonym, a string or \<open>None\<close>.\<close>

definition matched :: "term_dict \<Rightarrow> cell \<Rightarrow> bool" where
  "matched term_dict label =
     (case select_highest_priority term_dict label of None \<Rightarrow> False | Some t \<Rightarrow> t \<noteq> [])"

definition when_matched ::
  "bool \<Rightarrow> ('f fin_data \<Rightarrow> py_error + 'f fin_data) \<Rightarrow> py_error + 'f fin_data \<Rightarrow> py_error + 'f fin_data" where
  "when_matched b f x = (case x of Inl e \<Rightarrow> Inl e | Inr d \<Rightarrow> if b then f d else Inr d)"

text \<open>The body of \<open>for row in table\<close>.\<close>

definition process_row ::
  "(string \<Rightarrow> 'f option) \<Rightarrow> nat \<Rightarrow> nat \<Rightarrow> row \<Rightarrow> 'f fin_data \<Rightarrow> py_error + 'f fin_data" where
  "process_row flt cur ann r d =
     (case r of
        [] \<Rightarrow> Inr d
      | None # _ \<Rightarrow> Inr d
      | Some label # _ \<Rightarrow>
          when_matched (matched NPT (Some label)) (set_metric flt cur ann r ''Net Profit'')
            (when_matched (matched OPT (Some label)) (set_metric flt cur ann r ''Operating Profit'')
              (when_matched (matched RT (Some label)) (set_metric flt cur ann r ''Revenue'')
                (Inr d))))"

fun process_rows ::
  "(string \<Rightarrow> 'f option) \<Rightarrow> nat \<Rightarrow> nat \<Rightarrow> table \<Rightarrow> 'f fin_data \<Rightarrow> py_error + 'f fin_data" where
  "process_rows flt cur ann [] d = Inr d"
| "process_rows flt cur ann (r # rs) d =
     (case process_row flt cur ann r d of
        Inl e \<Rightarrow> Inl e
      | Inr d' \<Rightarrow> process_rows flt cur ann rs d')"

text \<open>
  \<open>extract_financial_values\<close>.  The loop runs over the whole table, header row included.
  For a text \<open>s\<close> the source runs the same code on a string: \<open>s[0]\<close> is one character,
  which contains neither marker, so both indices stay \<open>None\<close> and the initial data is
  returned; \<open>None\<close>, the empty table and the empty text are caught by \<open>not table\<close>.
\<close>

definition extract_financial_values ::
  "(string \<Rightarrow> 'f option) \<Rightarrow> located \<Rightarrow> py_error + 'f fin_data" where
  "extract_financial_values flt src =
     (case src of
        Nothing \<Rightarrow> Inr initial_data
      | Text s \<Rightarrow> Inr initial_data
      | Table [] \<Rightarrow> Inr initial_data
      | Table (header # rest) \<Rightarrow>
          (case column_indices header of
             (Some cur, Some ann) \<Rightarrow> process_rows flt cur ann (header # rest) initial_data
           | _ \<Rightarrow> Inr initial_data))"

section \<open>Notions used to state the properties of the extractor\<close>

text \<open>A row is seen by a dictionary when its first cell is a string in which the
  dictionary finds a synonym.\<close>

definition row_matched :: "term_dict \<Rightarrow> row \<Rightarrow> bool" where
  "row_matched term_dict r = (case r of Some label # _ \<Rightarrow> matched term_dict (Some label) | _ \<Rightarrow> False)"

text \<open>The three metrics with their dictionaries, as the loop body pairs them.\<close>

definition metrics :: "(string \<times> term_dict) list" where
  "metrics = [(''Revenue'', RT), (''Operating Profit'', OPT), (''Net Profit'', NPT)]"

text \<open>A row seen by at least one of the three dictionaries.\<close>

definition row_matched_any :: "row \<Rightarrow> bool" where
  "row_matched_any r = (\<exists>(k, D) \<in> set metrics. row_matched D r)"

text \<open>The targeted cell of a row is present when the column is within the row and the
  cell is a non-empty string.\<close>

definition cell_present :: "nat \<Rightarrow> row \<Rightarrow> bool" where
  "cell_present col r = (col < length r \<and> cell_truthy (r ! col))"

text \<open>The targeted cell does not stop the extraction: it is not present, or \<open>float\<close>
  accepts it once the commas are removed.\<close>

definition cell_parses :: "(string \<Rightarrow> 'f option) \<Rightarrow> nat \<Rightarrow> row \<Rightarrow> bool" where
  "cell_parses flt col r =
     (cell_present col r \<longrightarrow> flt (remove_commas (cell_str (r ! col))) \<noteq> None)"

text \<open>The effect of one matched metric on the data: both periods receive the values read
  from the row.\<close>

definition put_metric :: "bool \<Rightarrow> string \<Rightarrow> 'f pyval \<Rightarrow> 'f pyval \<Rightarrow> 'f fin_data \<Rightarrow> 'f fin_data" where
  "put_metric b k v w d =
     (if b then d\<lparr> current_quarter := dict_set k v (current_quarter d),
                   annual_data := dict_set k w (annual_data d) \<rparr> else d)"

text \<open>The index of the last element satisfying \<open>P\<close>, counted from \<open>i\<close>.\<close>

fun last_index :: "('a \<Rightarrow> bool) \<Rightarrow> 'a list \<Rightarrow> nat \<Rightarrow> nat option \<Rightarrow> nat option" where
  "last_index P [] i acc = acc"
| "last_index P (x # xs) i acc = last_index P xs (Suc i) (if P x then Some i else acc)"

section \<open>Documents and the table locator\<close>

text \<open>
  What the program reads from a document, page by page: the text of
  \<open>page.extract_text()\<close> (a string or \<open>None\<close>), the tables of \<open>page.extract_tables()\<close>,
  and the text that character recognition returns for each image rendered from the page.
\<close>

record page =
  page_text :: "string option"
  page_tables :: "table list"
  page_ocr :: "string list"

type_synonym pdf = "page list"

text \<open>\<open>extract_text_from_image\<close>: the texts of the images, each followed by a line feed,
  concatenated and stripped.\<close>

definition extract_text_from_image :: "page \<Rightarrow> string" where
  "extract_text_from_image pg = strip (concat (map (\<lambda>t. t @ [CHR 0x0A]) (page_ocr pg)))"

text \<open>\<open>any("Particulars" in str(cell) for cell in table[0] if cell)\<close>, for a table with a
  first row.\<close>

definition has_particulars_header :: "row \<Rightarrow> bool" where
  "has_particulars_header header =
     list_ex (\<lambda>c. cell_truthy c \<and> str_in ''Particulars'' (cell_str c)) header"

text \<open>The loop over the tables of one page; \<open>table[0]\<close> of an empty table raises
  \<open>IndexError\<close>.\<close>

fun find_marked_table :: "table list \<Rightarrow> py_error + table option" where
  "find_marked_table [] = Inr None"
| "find_marked_table (t # ts) =
     (case t of
        [] \<Rightarrow> Inl IndexError
      | header # _ \<Rightarrow> if has_particulars_header header then Inr (Some t) else find_marked_table ts)"

text \<open>
  \<open>extract_table_or_text\<close>.  The body of \<open>for page in pdf.pages\<close> ends in a \<open>return\<close> on
  each of its paths, so the loop body runs for the first page only; a document without
  pages falls through to the final \<open>return None\<close>.
\<close>

fun extract_table_or_text :: "pdf \<Rightarrow> py_error + located" where
  "extract_table_or_text [] = Inr Nothing"
| "extract_table_or_text (pg # rest) =
     (case find_marked_table (page_tables pg) of
        Inl e \<Rightarrow> Inl e
      | Inr (Some t) \<Rightarrow> Inr (Table t)
      | Inr None \<Rightarrow>
          (let text = extract_text_from_image pg
           in Inr (if strip text \<noteq> [] then Text text else Nothing)))"

section \<open>Date patterns and periods\<close>

text \<open>
  The regular expressions of the source are modelled by what a backtracking matcher does
  with them on ASCII text.  A piece of a pattern maps the text at the current position to
  the list of its possible matches, each with the text left over, in the order in which
  the matcher tries them; a sequence of pieces takes the first combination that succeeds.
\<close>

type_synonym piece = "string \<Rightarrow> (string \<times> string) list"

text \<open>One character of a class.\<close>

definition one_char :: "(char \<Rightarrow> bool) \<Rightarrow> piece" where
  "one_char cls s = (case s of [] \<Rightarrow> [] | c # r \<Rightarrow> if cls c then [([c], r)] else [])"

text \<open>\<open>cls{lo,hi}\<close>, greedy: the longest admissible run first, then shorter ones.\<close>

definition greedy :: "(char \<Rightarrow> bool) \<Rightarrow> nat \<Rightarrow> nat \<Rightarrow> piece" where
  "greedy cls lo hi s =
     (let n = min hi (length (takeWhile cls s))
      in map (\<lambda>k. (take k s, drop k s)) (rev [lo ..< Suc n]))"

text \<open>\<open>p q\<close>: every match of \<open>p\<close> followed by every match of \<open>q\<close> on what \<open>p\<close> left.\<close>

definition seq :: "piece \<Rightarrow> piece \<Rightarrow> piece" where
  "seq p q s = concat (map (\<lambda>(a, r). map (\<lambda>(b, r'). (a @ b, r')) (q r)) (p s))"

text \<open>\<open>p|q|...\<close>: the alternatives in their order.\<close>

definition alt :: "piece list \<Rightarrow> piece" where
  "alt ps s = concat (map (\<lambda>p. p s) ps)"

definition is_word :: "char \<Rightarrow> bool" where
  "is_word c = (c \<in> set ''abcdefghijklmnopqrstuvwxyzABCDEFGHIJKLMNOPQRSTUVWXYZ0123456789_'')"

text \<open>\<open>\b\<close> between the character before the position and the character at it; the two
  ends of the text count as non-word characters.\<close>

definition boundary :: "char option \<Rightarrow> string \<Rightarrow> bool" where
  "boundary prev s =
     ((case prev of None \<Rightarrow> False | Some c \<Rightarrow> is_word c) \<noteq>
      (case s of [] \<Rightarrow> False | c # _ \<Rightarrow> is_word c))"

definition is_date_sep :: "char \<Rightarrow> bool" where
  "is_date_sep c = (c = CHR ''/'' \<or> c = CHR ''-'')"

text \<open>The pattern \<open>\b(\d{1,2}[/-]\d{1,2}[/-]\d{2,4})\b\<close> tried at one position, \<open>prev\<close>
  being the character before it: the first match and the text after it.\<close>

definition date_pattern :: piece where
  "date_pattern =
     seq (greedy is_digit 1 2) (seq (one_char is_date_sep) (seq (greedy is_digit 1 2)
       (seq (one_char is_date_sep) (greedy is_digit 2 4))))"

definition date_pattern_at :: "char option \<Rightarrow> string \<Rightarrow> (string \<times> string) option" where
  "date_pattern_at prev s =
     (if boundary prev s
      then find (\<lambda>(m, r). m \<noteq> [] \<and> boundary (Some (last m)) r) (date_pattern s)
      else None)"

text \<open>\<open>re.findall\<close>: scan from left to right, and go on behind each match.  A match starts
  with the character \<open>c\<close> at the position, so the text behind it is \<open>cs\<close> without the
  other characters of the match.\<close>

fun findall_dates :: "char option \<Rightarrow> string \<Rightarrow> string list" where
  "findall_dates prev [] = []"
| "findall_dates prev (c # cs) =
     (case date_pattern_at prev (c # cs) of
        Some (m, r) \<Rightarrow> m # findall_dates (Some (last m)) (drop (length m - 1) cs)
      | None \<Rightarrow> findall_dates (Some c) cs)"

text \<open>
  \<open>datetime.strptime\<close> for the four formats of the source.  The library turns a format
  into a regular expression, \<open>%d\<close> into \<open>3[0-1]|[1-2]\d|0[1-9]|[1-9]| [1-9]\<close>, \<open>%m\<close> into
  \<open>1[0-2]|0[1-9]|[1-9]\<close>, \<open>%Y\<close> into four digits and \<open>%y\<close> into two, matches it at the
  start of the string and refuses a string with characters left over; a two-digit year
  below 69 is in 2000..2068, any other in 1969..1999.  A date is then built, which
  refuses the year 0 and a day beyond the length of the month.  \<open>None\<close> stands for the
  \<open>ValueError\<close> of every refusal.
\<close>

type_synonym date = "nat \<times> nat \<times> nat"

definition in_chars :: "string \<Rightarrow> char \<Rightarrow> bool" where
  "in_chars cs c = (c \<in> set cs)"

definition day_field :: piece where
  "day_field =
     alt [seq (one_char (in_chars ''3'')) (one_char (in_chars ''01'')),
          seq (one_char (in_chars ''12'')) (one_char is_digit),
          seq (one_char (in_chars ''0'')) (one_char (in_chars ''123456789'')),
          one_char (in_chars ''123456789''),
          seq (one_char (in_chars '' '')) (one_char (in_chars ''123456789''))]"

definition month_field :: piece where
  "month_field =
     alt [seq (one_char (in_chars ''1'')) (one_char (in_chars ''012'')),
          seq (one_char (in_chars ''0'')) (one_char (in_chars ''123456789'')),
          one_char (in_chars ''123456789'')]"

definition year_field :: "bool \<Rightarrow> piece" where
  "year_field four = (if four then greedy is_digit 4 4 else greedy is_digit 2 2)"

text \<open>A format of the source: its separator, and whether its year has four digits.\<close>

type_synonym date_format = "char \<times> bool"

definition formats :: "date_format list" where
  "formats = [(CHR ''-'', True), (CHR ''/'', True), (CHR ''-'', False), (CHR ''/'', False)]"

definition is_leap :: "nat \<Rightarrow> bool" where
  "is_leap y = (y mod 4 = 0 \<and> (y mod 100 \<noteq> 0 \<or> y mod 400 = 0))"

definition days_in_month :: "nat \<Rightarrow> nat \<Rightarrow> nat" where
  "days_in_month y m =
     (if m = 2 then (if is_leap y then 29 else 28)
      else if m \<in> {4, 6, 9, 11} then 30 else 31)"

definition make_date :: "nat \<Rightarrow> nat \<Rightarrow> nat \<Rightarrow> date option" where
  "make_date y m d =
     (if 1 \<le> y \<and> y \<le> 9999 \<and> 1 \<le> m \<and> m \<le> 12 \<and> 1 \<le> d \<and> d \<le> days_in_month y m
      then Some (y, m, d) else None)"

definition field_val :: "string \<Rightarrow> nat" where
  "field_val s = digits_val (filter is_digit s)"

definition full_year :: "bool \<Rightarrow> nat \<Rightarrow> nat" where
  "full_year four y = (if four then y else if y \<le> 68 then 2000 + y else 1900 + y)"

text \<open>The fields of the first match of a format at the start of the string, with the text
  that the match leaves over.\<close>

definition format_match :: "date_format \<Rightarrow> string \<Rightarrow> (string \<times> string \<times> string \<times> string) option" where
  "format_match fmt s =
     (case concat (map (\<lambda>(d, r1). concat (map (\<lambda>(_, r2). concat (map (\<lambda>(m, r3).
             concat (map (\<lambda>(_, r4). map (\<lambda>(y, r5). (d, m, y, r5)) (year_field (snd fmt) r4))
             (one_char (\<lambda>c. c = fst fmt) r3)))
           (month_field r2)))
         (one_char (\<lambda>c. c = fst fmt) r1)))
       (day_field s)) of
        [] \<Rightarrow> None
      | f # _ \<Rightarrow> Some f)"

definition strptime :: "string \<Rightarrow> date_format \<Rightarrow> date option" where
  "strptime s fmt =
     (case format_match fmt s of
        None \<Rightarrow> None
      | Some (d, m, y, left) \<Rightarrow>
          if left \<noteq> [] then None
          else make_date (full_year (snd fmt) (field_val y)) (field_val m) (field_val d))"

text \<open>The inner loop of the source: the first format that parses the string; a string that
  no format parses adds nothing.\<close>

fun first_format :: "date_format list \<Rightarrow> string \<Rightarrow> date option" where
  "first_format [] s = None"
| "first_format (fmt # fmts) s =
     (case strptime s fmt of Some d \<Rightarrow> Some d | None \<Rightarrow> first_format fmts s)"

definition parsed_dates :: "string \<Rightarrow> date list" where
  "parsed_dates text = List.map_filter (first_format formats) (findall_dates None text)"

text \<open>\<open>sorted(xs, reverse=True)\<close>; the dates are compared by year, then month, then day,
  and equal dates are indistinguishable.\<close>

definition sorted_reverse :: "date list \<Rightarrow> date list" where
  "sorted_reverse ds = rev (sort ds)"

text \<open>The decimal digits of a number, as \<open>str\<close> and the f-string print it.\<close>

function str_nat :: "nat \<Rightarrow> string" where
  "str_nat n = (if n < 10 then [''0123456789'' ! n] else str_nat (n div 10) @ [''0123456789'' ! (n mod 10)])"
  by pat_completeness auto
termination
  by (relation "measure id") auto

definition quarter :: "date \<Rightarrow> nat" where
  "quarter d = (fst (snd d) - 1) div 3 + 1"

definition period_label :: "date \<Rightarrow> string" where
  "period_label d = ''Q'' @ str_nat (quarter d) @ '' '' @ str_nat (fst d)"

definition extract_dates_from_text :: "string \<Rightarrow> string option \<times> string option" where
  "extract_dates_from_text text =
     (let formatted_dates = parsed_dates text in
      if formatted_dates = [] then (None, None)
      else
        (let sorted_dates = sorted_reverse formatted_dates;
             latest_date = sorted_dates ! 0;
             previous_date = (if length sorted_dates > 1 then Some (sorted_dates ! 1) else None)
         in (Some (period_label latest_date), map_option period_label previous_date)))"

section \<open>Unit, company name and year\<close>

definition detect_fin_unit :: "string \<Rightarrow> string" where
  "detect_fin_unit text =
     (case find (\<lambda>unit. str_in (lower unit) (lower text))
             [''Crores'', ''Lakhs'', ''Millions'', ''Billions''] of
        Some unit \<Rightarrow> unit
      | None \<Rightarrow> ''Unknown'')"

text \<open>A literal under \<open>(?i)\<close>, and the unbounded greedy repetitions \<open>*\<close> and \<open>+\<close>.\<close>

definition literal_ci :: "string \<Rightarrow> piece" where
  "literal_ci lit s =
     (if length lit \<le> length s \<and> lower (take (length lit) s) = lower lit
      then [(take (length lit) s, drop (length lit) s)] else [])"

definition rep_star :: "(char \<Rightarrow> bool) \<Rightarrow> piece" where
  "rep_star cls s = greedy cls 0 (length s) s"

definition rep_plus :: "(char \<Rightarrow> bool) \<Rightarrow> piece" where
  "rep_plus cls s = greedy cls 1 (length s) s"

definition is_colon_dash_space :: "char \<Rightarrow> bool" where
  "is_colon_dash_space c = (c = CHR '':'' \<or> c = CHR ''-'' \<or> is_space c)"

definition is_name_char :: "char \<Rightarrow> bool" where
  "is_name_char c =
     (c \<in> set ''abcdefghijklmnopqrstuvwxyzABCDEFGHIJKLMNOPQRSTUVWXYZ0123456789&.,'' \<or> is_space c)"

text \<open>The pattern
  \<open>(?i)(?:Company Name|Statement of|Financial Report of)\s*[:\-\s]*([A-Za-z0-9&.,\s]+)\<close>
  tried at one position: group 1 of the first match.\<close>

definition company_group_at :: "string \<Rightarrow> string option" where
  "company_group_at s =
     (case concat (map (\<lambda>(_, r1). concat (map (\<lambda>(_, r2). concat (map (\<lambda>(_, r3).
               map fst (rep_plus is_name_char r3))
             (rep_star is_colon_dash_space r2)))
           (rep_star is_space r1)))
         (alt [literal_ci ''Company Name'', literal_ci ''Statement of'',
               literal_ci ''Financial Report of''] s)) of
        [] \<Rightarrow> None
      | g # _ \<Rightarrow> Some g)"

text \<open>\<open>re.search\<close>: the first position at which the pattern matches.\<close>

fun search_company :: "string \<Rightarrow> string option" where
  "search_company [] = company_group_at []"
| "search_company (c # cs) =
     (case company_group_at (c # cs) of Some g \<Rightarrow> Some g | None \<Rightarrow> search_company cs)"

definition extract_company_name :: "string \<Rightarrow> string" where
  "extract_company_name text =
     (case search_company text of Some g \<Rightarrow> strip g | None \<Rightarrow> ''Unknown Company'')"

text \<open>\<open>re.search(r"\b\d{4}\b", text)\<close>.\<close>

definition year_at :: "char option \<Rightarrow> string \<Rightarrow> string option" where
  "year_at prev s =
     (if boundary prev s
      then map_option fst (find (\<lambda>(m, r). m \<noteq> [] \<and> boundary (Some (last m)) r) (greedy is_digit 4 4 s))
      else None)"

fun search_year :: "char option \<Rightarrow> string \<Rightarrow> string option" where
  "search_year prev [] = None"
| "search_year prev (c # cs) =
     (case year_at prev (c # cs) of Some y \<Rightarrow> Some y | None \<Rightarrow> search_year (Some c) cs)"

definition annual_year :: "string \<Rightarrow> string" where
  "annual_year text = (case search_year None text of Some y \<Rightarrow> y | None \<Rightarrow> ''Unknown Year'')"

section \<open>The language-model fallback\<close>

text \<open>
  What the program takes from outside: \<open>float\<close> and the truth value of a float, the answer
  of the language model to the request built around a document text (its text, or the
  exception of the call), and \<open>json.loads\<close> on a string that starts with an opening and
  ends with a closing brace (the object it denotes, or \<open>None\<close> for its
  \<open>JSONDecodeError\<close>).
\<close>

record 'f env =
  float_of :: "string \<Rightarrow> 'f option"
  float_bool :: "'f \<Rightarrow> bool"
  generate_content :: "string \<Rightarrow> py_error + string"
  json_loads :: "string \<Rightarrow> 'f pydict option"

text \<open>\<open>re.search(r"\{.*\}", text, re.DOTALL)\<close>: from the first opening brace to the last
  closing brace behind it.\<close>

definition json_span :: "string \<Rightarrow> string option" where
  "json_span s =
     (let t = dropWhile (\<lambda>c. c \<noteq> CHR 0x7B) s;
          u = rev (dropWhile (\<lambda>c. c \<noteq> CHR 0x7D) (rev t))
      in if length u < 2 then None else Some u)"

definition use_gemini_extraction :: "'f env \<Rightarrow> string \<Rightarrow> py_error + 'f pydict option" where
  "use_gemini_extraction env text =
     (case generate_content env text of
        Inl e \<Rightarrow> Inl e
      | Inr response \<Rightarrow>
          (case json_span response of
             None \<Rightarrow> Inr None
           | Some j \<Rightarrow> Inr (json_loads env j)))"

text \<open>\<open>d.update(x)\<close>: an object overwrites or appends its items in their order; \<open>None\<close>, a
  number and a boolean are not iterable; an empty string has no items and another string
  has items of length one.\<close>

definition dict_update :: "'f pydict \<Rightarrow> 'f pyval \<Rightarrow> py_error + 'f pydict" where
  "dict_update d x =
     (case x of
        PDict items \<Rightarrow> Inr (fold (\<lambda>(k, v). dict_set k v) items d)
      | PStr s \<Rightarrow> if s = [] then Inr d else Inl ValueError
      | _ \<Rightarrow> Inl TypeError)"

text \<open>\<open>d.get(k, default)\<close>.\<close>

definition dict_get :: "'f pydict \<Rightarrow> string \<Rightarrow> 'f pyval \<Rightarrow> 'f pyval" where
  "dict_get d k dflt = (case map_of d k of Some v \<Rightarrow> v | None \<Rightarrow> dflt)"

section \<open>The main function\<close>

record 'f financials = "'f fin_data" +
  company_name :: "'f pyval"

datatype 'f response = ErrorObject nat string | Financials "'f financials"

definition no_data_error :: "'f response" where
  "no_data_error = ErrorObject 404 ''No financial data found in the document.''"

text \<open>A run of \<open>extract_fin_data\<close>: the text stored in the session state, the document
  texts sent to the language model, and what the call returns or raises.\<close>

record 'f run =
  session_text :: string
  llm_requests :: "string list"
  returned :: "py_error + 'f response"

text \<open>The concatenation of \<open>page.extract_text() or ""\<close> over the pages.\<close>

definition document_text :: "pdf \<Rightarrow> string" where
  "document_text doc = concat (map (\<lambda>pg. case page_text pg of None \<Rightarrow> [] | Some t \<Rightarrow> t) doc)"

text \<open>Lines 206 and 207: the local table parse.\<close>

definition local_data :: "'f env \<Rightarrow> pdf \<Rightarrow> py_error + 'f fin_data" where
  "local_data env doc =
     (case extract_table_or_text doc of
        Inl e \<Rightarrow> Inl e
      | Inr located \<Rightarrow> extract_financial_values (float_of env) located)"

text \<open>Line 211: \<open>not any(fin_data["Current Quarter"].values())\<close>.\<close>

definition needs_fallback :: "'f env \<Rightarrow> 'f fin_data \<Rightarrow> bool" where
  "needs_fallback env d = (\<not> any_values (float_bool env) (current_quarter d))"

text \<open>\<open>answer or {}\<close>.\<close>

definition or_empty :: "'f pydict option \<Rightarrow> 'f pydict" where
  "or_empty answer = (case answer of None \<Rightarrow> [] | Some a \<Rightarrow> a)"

text \<open>Lines 213 to 215: the answer \<open>ai_data\<close> is merged into the data and the company
  name.\<close>

definition merge_ai ::
  "'f pydict \<Rightarrow> 'f fin_data \<Rightarrow> 'f pyval \<Rightarrow> py_error + ('f fin_data \<times> 'f pyval)" where
  "merge_ai ai_data d name =
     (case dict_update (current_quarter d) (dict_get ai_data ''Current Quarter'' (PDict [])) of
        Inl e \<Rightarrow> Inl e
      | Inr cq \<Rightarrow>
          (case dict_update (annual_data d) (dict_get ai_data ''Annual Data'' (PDict [])) of
             Inl e \<Rightarrow> Inl e
           | Inr ad \<Rightarrow>
               Inr (d\<lparr>current_quarter := cq, annual_data := ad\<rparr>,
                    dict_get ai_data ''Company Name'' name)))"

text \<open>Lines 217 to 225: the final test and the normalised record.\<close>

definition finish :: "'f env \<Rightarrow> string \<Rightarrow> 'f fin_data \<Rightarrow> 'f pyval \<Rightarrow> 'f response" where
  "finish env text d name =
     (if \<not> any_values (float_bool env) (current_quarter d) \<and>
         \<not> any_values (float_bool env) (annual_data d)
      then no_data_error
      else Financials
        \<lparr> current_quarter = dict_set ''Unit'' (PStr (detect_fin_unit text)) (current_quarter d),
          annual_data = dict_set ''Unit'' (PStr (detect_fin_unit text))
                          (dict_set ''Year'' (PStr (annual_year text)) (annual_data d)),
          company_name = name \<rparr>)"

text \<open>
  \<open>extract_fin_data\<close>.  The periods of \<open>extract_dates_from_text\<close> are computed at line 203
  and not used again; that call raises nothing and is left out.  \<open>ai_data\<close> is the answer
  of \<open>use_gemini_extraction\<close>, or the empty object when the answer is \<open>None\<close> or empty.
\<close>

definition extract_fin_data :: "'f env \<Rightarrow> pdf \<Rightarrow> 'f run" where
  "extract_fin_data env doc =
     (let extracted_text = document_text doc in
      if strip extracted_text = []
      then \<lparr>session_text = extracted_text, llm_requests = [], returned = Inr no_data_error\<rparr>
      else
        (case local_data env doc of
           Inl e \<Rightarrow> \<lparr>session_text = extracted_text, llm_requests = [], returned = Inl e\<rparr>
         | Inr fin_data \<Rightarrow>
             (let name = PStr (extract_company_name extracted_text) in
              if needs_fallback env fin_data
              then
                \<lparr>session_text = extracted_text, llm_requests = [extracted_text],
                 returned =
                   (case use_gemini_extraction env extracted_text of
                      Inl e \<Rightarrow> Inl e
                    | Inr answer \<Rightarrow>
                        (case merge_ai (or_empty answer) fin_data name of
                           Inl e \<Rightarrow> Inl e
                         | Inr (merged, name') \<Rightarrow> Inr (finish env extracted_text merged name')))\<rparr>
              else
                \<lparr>session_text = extracted_text, llm_requests = [],
                 returned = Inr (finish env extracted_text fin_data name)\<rparr>)))"

section \<open>Notions used to state the properties of the main function\<close>

text \<open>The data and the company name after the local parse and, when it runs, the merge of
  the language-model answer (lines 206 to 215), before the final test.\<close>

definition merged_data :: "'f env \<Rightarrow> pdf \<Rightarrow> py_error + ('f fin_data \<times> 'f pyval)" where
  "merged_data env doc =
     (case local_data env doc of
        Inl e \<Rightarrow> Inl e
      | Inr d \<Rightarrow>
          if needs_fallback env d
          then (case use_gemini_extraction env (document_text doc) of
                  Inl e \<Rightarrow> Inl e
                | Inr answer \<Rightarrow>
                    merge_ai (or_empty answer) d
                      (PStr (extract_company_name (document_text doc))))
          else Inr (d, PStr (extract_company_name (document_text doc))))"

text \<open>The items that the answer holds for a period: those of the object under the key,
  none when the key is missing (or holds an empty string).\<close>

definition period_items :: "'f pydict \<Rightarrow> string \<Rightarrow> 'f pydict" where
  "period_items ai_data k = (case dict_get ai_data k (PDict []) of PDict items \<Rightarrow> items | _ \<Rightarrow> [])"

definition metric_keys :: "string list" where
  "metric_keys = [''Revenue'', ''Operating Profit'', ''Net Profit'']"

text \<open>The shape of a period dictionary after the local parse: the three metric keys, each
  with \<open>None\<close> or a float.\<close>

definition local_shape :: "'f pydict \<Rightarrow> bool" where
  "local_shape d =
     (map fst d = metric_keys \<and> (\<forall>v \<in> set (map snd d). v = PNone \<or> (\<exists>x. v = PFloat x)))"

section \<open>Concrete documents and collaborators\<close>

text \<open>A one-page document with a statement table, and two language models: one that
  answers without any object, one that answers with annual figures.\<close>

definition acme_doc :: "row list \<Rightarrow> pdf" where
  "acme_doc data_rows =
     [\<lparr>page_text = Some ''Statement of Acme Ltd (Rs. in Lakhs) for the year ended 31-03-2024'',
       page_tables = [[Some ''Particulars'', Some ''Quarter ended'', Some ''Year ended''] # data_rows],
       page_ocr = []\<rparr>]"

definition silent_env :: "rat env" where
  "silent_env =
     \<lparr>float_of = dec_float, float_bool = rat_bool,
      generate_content = (\<lambda>text. Inr ''No figures found.''),
      json_loads = (\<lambda>s. None)\<rparr>"

definition annual_answer :: string where
  \<open>annual_answer = ''{"Annual Data": {"Revenue": 999, "Operating Profit": 50}}''\<close>

definition annual_env :: "rat env" where
  "annual_env =
     \<lparr>float_of = dec_float, float_bool = rat_bool,
      generate_content = (\<lambda>text. Inr annual_answer),
      json_loads = (\<lambda>s. if s = annual_answer
         then Some [(''Annual Data'', PDict [(''Revenue'', PInt 999), (''Operating Profit'', PInt 50)])]
         else None)\<rparr>"

section \<open>Properties of the synonym matcher\<close>

lemma min_by_le_best: "key (min_by key b xs) \<le> key b"
  by (induction xs arbitrary: b) (auto intro: order_trans less_imp_le)

lemma min_by_le: "y \<in> set xs \<Longrightarrow> key (min_by key b xs) \<le> key y"
proof (induction xs arbitrary: b)
  case Nil
  then show ?case by simp
next
  case (Cons x xs)
  then show ?case
    using min_by_le_best [of key x xs] min_by_le_best [of key b xs]
    by (auto intro: order_trans)
qed

lemma min_by_first:
  "find (\<lambda>y. key y \<le> key (min_by key b xs)) (b # xs) = Some (min_by key b xs)"
proof (induction xs arbitrary: b)
  case Nil
  show ?case by simp
next
  case (Cons x xs)
  show ?case
  proof (cases "key x < key b")
    case True
    have "key (min_by key x xs) \<le> key x" by (rule min_by_le_best)
    with True have "\<not> key b \<le> key (min_by key x xs)" by simp
    with True Cons.IH [of x] show ?thesis by simp
  next
    case False
    note IH = Cons.IH [of b]
    show ?thesis
    proof (cases "key b \<le> key (min_by key b xs)")
      case True
      with IH False show ?thesis by simp
    next
      case nb: False
      with False have "\<not> key x \<le> key (min_by key b xs)" by simp
      with IH False nb show ?thesis by simp
    qed
  qed
qed

lemma min_by_mem: "min_by key b xs \<in> set (b # xs)"
  using min_by_first [of key b xs] by (metis find_Some_iff nth_mem)


lemma find_filter: "find Q (filter M xs) = find (\<lambda>y. M y \<and> Q y) xs"
  by (induction xs) auto

lemma select_highest_priority_Some:
  assumes "filter (term_matches t) d = m # r"
  shows "find (\<lambda>y. term_matches t y \<and> (\<forall>z \<in> set d. term_matches t z \<longrightarrow> snd y \<le> snd z)) d
         = Some (min_by snd m r)"
proof -
  let ?x = "min_by snd m r"
  have mem: "?x \<in> set (filter (term_matches t) d)"
    using min_by_mem [of snd m r] assms by simp
  have le: "snd ?x \<le> snd z" if "z \<in> set d" "term_matches t z" for z
  proof -
    from that have "z \<in> set (filter (term_matches t) d)" by simp
    with assms have "z \<in> set (m # r)" by simp
    then show ?thesis
      using min_by_le [of z r snd m] min_by_le_best [of snd m r] by auto
  qed
  have "find (\<lambda>y. snd y \<le> snd ?x) (filter (term_matches t) d) = Some ?x"
    using min_by_first [of snd m r] assms by simp
  then have "find (\<lambda>y. term_matches t y \<and> snd y \<le> snd ?x) d = Some ?x"
    by (simp add: find_filter)
  moreover have "find (\<lambda>y. term_matches t y \<and> (\<forall>z \<in> set d. term_matches t z \<longrightarrow> snd y \<le> snd z)) d
      = find (\<lambda>y. term_matches t y \<and> snd y \<le> snd ?x) d"
  proof (rule find_cong [OF refl])
    fix y assume "y \<in> set d"
    show "(term_matches t y \<and> (\<forall>z \<in> set d. term_matches t z \<longrightarrow> snd y \<le> snd z))
        = (term_matches t y \<and> snd y \<le> snd ?x)"
      using le mem by (auto intro: order_trans)
  qed
  ultimately show ?thesis by simp
qed

text \<open>
  C5.  \<open>select_highest_priority\<close> returns nothing for an absent label; for a label text it
  returns nothing exactly when no synonym of the dictionary is a case-insensitive
  substring of the text; and when it returns a synonym, that synonym is the first item of
  the dictionary, in the dictionary's order, that is contained in the text and whose
  priority number is lowest among all contained synonyms.  The result is a function of the
  dictionary and the text, so the selection is deterministic, also among equal priorities.
\<close>

theorem select_highest_priority_lowest_rank:
  "select_highest_priority d None = None \<and>
   ((select_highest_priority d (Some t) = None) =
      (\<forall>(s, p) \<in> set d. \<not> str_in (lower s) (lower t))) \<and>
   (\<forall>s. select_highest_priority d (Some t) = Some s \<longrightarrow>
      (\<exists>p. find (\<lambda>(s', p'). str_in (lower s') (lower t) \<and>
                    (\<forall>(s'', p'') \<in> set d. str_in (lower s'') (lower t) \<longrightarrow> p' \<le> p'')) d
           = Some (s, p)))"
proof (intro conjI allI impI)
  show "select_highest_priority d None = None"
    by (simp add: select_highest_priority_def)
next
  have "(filter (term_matches t) d = []) = (\<forall>(s, p) \<in> set d. \<not> str_in (lower s) (lower t))"
    by (auto simp: filter_empty_conv term_matches_def)
  moreover have "(select_highest_priority d (Some t) = None) = (filter (term_matches t) d = [])"
    by (simp add: select_highest_priority_def split: list.splits)
  ultimately show "(select_highest_priority d (Some t) = None) =
      (\<forall>(s, p) \<in> set d. \<not> str_in (lower s) (lower t))"
    by simp
next
  fix s
  assume a: "select_highest_priority d (Some t) = Some s"
  then obtain m r where f: "filter (term_matches t) d = m # r" and s: "s = fst (min_by snd m r)"
    by (auto simp: select_highest_priority_def split: list.splits)
  have eq: "(\<lambda>(s', p'). str_in (lower s') (lower t) \<and>
                    (\<forall>(s'', p'') \<in> set d. str_in (lower s'') (lower t) \<longrightarrow> p' \<le> p''))
      = (\<lambda>y. term_matches t y \<and> (\<forall>z \<in> set d. term_matches t z \<longrightarrow> snd y \<le> snd z))"
    by (auto simp: term_matches_def fun_eq_iff)
  show "\<exists>p. find (\<lambda>(s', p'). str_in (lower s') (lower t) \<and>
                    (\<forall>(s'', p'') \<in> set d. str_in (lower s'') (lower t) \<longrightarrow> p' \<le> p'')) d
           = Some (s, p)"
    unfolding eq using select_highest_priority_Some [OF f] s
    by (intro exI [of _ "snd (min_by snd m r)"]) simp
qed

theorem select_highest_priority_lowest_rank_witness:
  "select_highest_priority RT (Some ''Total Revenue from Operations'') = Some ''revenue from operations'' \<and>
   select_highest_priority RT (Some ''Other income'') = None \<and>
   (\<exists>p. find (\<lambda>(s', p'). str_in (lower s') (lower ''Total Revenue from Operations'') \<and>
                    (\<forall>(s'', p'') \<in> set RT. str_in (lower s'') (lower ''Total Revenue from Operations'') \<longrightarrow> p' \<le> p'')) RT
           = Some (''revenue from operations'', p))"
proof -
  have a: "select_highest_priority RT (Some ''Total Revenue from Operations'') = Some ''revenue from operations''"
    by code_simp
  have b: "select_highest_priority RT (Some ''Other income'') = None"
    by code_simp
  note c = select_highest_priority_lowest_rank [of RT "''Total Revenue from Operations''"]
  from c a have "\<exists>p. find (\<lambda>(s', p'). str_in (lower s') (lower ''Total Revenue from Operations'') \<and>
                    (\<forall>(s'', p'') \<in> set RT. str_in (lower s'') (lower ''Total Revenue from Operations'') \<longrightarrow> p' \<le> p'')) RT
           = Some (''revenue from operations'', p)"
    by blast
  with a b show ?thesis by blast
qed

section \<open>Properties of the header scan\<close>

lemma last_index_None:
  "(last_index P xs i acc = None) = (acc = None \<and> (\<forall>x \<in> set xs. \<not> P x))"
  by (induction xs arbitrary: i acc) auto

lemma last_index_Some:
  "last_index P xs i acc = Some k \<Longrightarrow>
     (acc = Some k \<and> (\<forall>x \<in> set xs. \<not> P x)) \<or>
     (\<exists>j < length xs. k = i + j \<and> P (xs ! j) \<and> (\<forall>m < length xs. j < m \<longrightarrow> \<not> P (xs ! m)))"
proof (induction xs arbitrary: i acc)
  case Nil
  then show ?case by simp
next
  case (Cons x xs)
  from Cons.prems have "last_index P xs (Suc i) (if P x then Some i else acc) = Some k" by simp
  from Cons.IH [OF this] show ?case
  proof
    assume a: "(if P x then Some i else acc) = Some k \<and> (\<forall>x \<in> set xs. \<not> P x)"
    show ?thesis
    proof (cases "P x")
      case True
      with a have "k = i" by simp
      moreover have "\<forall>m < length (x # xs). 0 < m \<longrightarrow> \<not> P ((x # xs) ! m)"
        using a by (auto simp: nth_Cons split: nat.splits)
      ultimately have "\<exists>j < length (x # xs). k = i + j \<and> P ((x # xs) ! j) \<and>
          (\<forall>m < length (x # xs). j < m \<longrightarrow> \<not> P ((x # xs) ! m))"
        using True by (intro exI [of _ 0]) simp
      then show ?thesis ..
    next
      case False
      with a show ?thesis by simp
    qed
  next
    assume "\<exists>j < length xs. k = Suc i + j \<and> P (xs ! j) \<and> (\<forall>m < length xs. j < m \<longrightarrow> \<not> P (xs ! m))"
    then obtain j where j: "j < length xs" "k = Suc i + j" "P (xs ! j)"
      "\<forall>m < length xs. j < m \<longrightarrow> \<not> P (xs ! m)" by blast
    have "\<forall>m < length (x # xs). Suc j < m \<longrightarrow> \<not> P ((x # xs) ! m)"
      using j(4) by (auto simp: nth_Cons split: nat.splits)
    with j have "\<exists>j < length (x # xs). k = i + j \<and> P ((x # xs) ! j) \<and>
          (\<forall>m < length (x # xs). j < m \<longrightarrow> \<not> P ((x # xs) ! m))"
      by (intro exI [of _ "Suc j"]) simp
    then show ?thesis ..
  qed
qed

lemma last_index_acc:
  "last_index P xs j acc = (case last_index P xs j None of None \<Rightarrow> acc | Some k \<Rightarrow> Some k)"
proof (induction xs arbitrary: j acc)
  case Nil
  show ?case by simp
next
  case (Cons x xs)
  have 1: "last_index P xs (Suc j) acc =
      (case last_index P xs (Suc j) None of None \<Rightarrow> acc | Some k \<Rightarrow> Some k)"
    by (rule Cons.IH)
  have 2: "last_index P xs (Suc j) (Some j) =
      (case last_index P xs (Suc j) None of None \<Rightarrow> Some j | Some k \<Rightarrow> Some k)"
    by (rule Cons.IH)
  show ?case
  proof (cases "P x")
    case True
    then show ?thesis by (simp add: 2 split: option.splits)
  next
    case False
    then show ?thesis using 1 by simp
  qed
qed

lemma scan_header_last_index:
  "scan_header xs i (cur, ann) =
     (case last_index is_particular_cell xs i None of None \<Rightarrow> cur | Some j \<Rightarrow> Some (j + 1),
      case last_index is_year_ended_cell xs i None of None \<Rightarrow> ann | Some j \<Rightarrow> Some j)"
proof (induction xs arbitrary: i cur ann)
  case Nil
  show ?case by simp
next
  case (Cons c xs)
  show ?case
    using last_index_acc [of is_particular_cell xs "Suc i" "Some i"]
      last_index_acc [of is_year_ended_cell xs "Suc i" "Some i"]
    by (simp add: Cons.IH split: option.splits)
qed

lemma column_indices_last_index:
  "column_indices header =
     (map_option Suc (last_index is_particular_cell header 0 None),
      last_index is_year_ended_cell header 0 None)"
  by (simp add: column_indices_def scan_header_last_index split: option.splits)

section \<open>Properties of the row loop\<close>

lemma map_of_dict_set: "map_of (dict_set k v d) k' = (if k' = k then Some v else map_of d k')"
  by (simp add: dict_set_def update_conv')

lemma cell_value_Inl: "cell_value flt col r = Inl e \<Longrightarrow> e = ValueError"
  by (auto simp: cell_value_def split: if_splits option.splits)

lemma cell_value_Inl_iff: "(cell_value flt col r = Inl ValueError) = (\<not> cell_parses flt col r)"
  by (auto simp: cell_value_def cell_parses_def cell_present_def split: option.splits)

lemma cell_value_Inr_iff: "(\<exists>v. cell_value flt col r = Inr v) = cell_parses flt col r"
  by (auto simp: cell_value_def cell_parses_def cell_present_def split: option.splits)

lemma cell_value_absent: "\<not> cell_present col r \<Longrightarrow> cell_value flt col r = Inr PNone"
  by (auto simp: cell_value_def cell_present_def)

lemma cell_value_present:
  "cell_present col r \<Longrightarrow>
     cell_value flt col r =
       (case flt (remove_commas (cell_str (r ! col))) of None \<Rightarrow> Inl ValueError | Some x \<Rightarrow> Inr (PFloat x))"
  by (simp add: cell_value_def cell_present_def)

lemma set_metric_ok:
  "cell_value flt cur r = Inr v \<Longrightarrow> cell_value flt ann r = Inr w \<Longrightarrow>
     set_metric flt cur ann r k d =
       Inr (d\<lparr> current_quarter := dict_set k v (current_quarter d),
               annual_data := dict_set k w (annual_data d) \<rparr>)"
  by (simp add: set_metric_def)

lemma set_metric_fail:
  "\<not> cell_parses flt cur r \<or> \<not> cell_parses flt ann r \<Longrightarrow> set_metric flt cur ann r k d = Inl ValueError"
  by (auto simp: set_metric_def cell_value_Inl_iff [symmetric] split: sum.splits dest: cell_value_Inl)

lemma when_matched_simps:
  "when_matched b f (Inl e) = Inl e"
  "when_matched True f (Inr d) = f d"
  "when_matched False f (Inr d) = Inr d"
  by (simp_all add: when_matched_def)

lemma process_row_ok:
  assumes "cell_value flt cur (Some label # rest) = Inr v"
    and "cell_value flt ann (Some label # rest) = Inr w"
  shows "process_row flt cur ann (Some label # rest) d =
     Inr (put_metric (matched NPT (Some label)) ''Net Profit'' v w
           (put_metric (matched OPT (Some label)) ''Operating Profit'' v w
             (put_metric (matched RT (Some label)) ''Revenue'' v w d)))"
  by (simp add: process_row_def when_matched_def put_metric_def set_metric_ok [OF assms])

lemma process_row_fail:
  assumes "\<not> cell_parses flt cur (Some label # rest) \<or> \<not> cell_parses flt ann (Some label # rest)"
    and "matched RT (Some label) \<or> matched OPT (Some label) \<or> matched NPT (Some label)"
  shows "process_row flt cur ann (Some label # rest) d = Inl ValueError"
  using assms(2)
  by (auto simp: process_row_def when_matched_def set_metric_fail [OF assms(1)] split: sum.splits)

lemma process_row_unmatched:
  assumes "\<not> row_matched RT r" "\<not> row_matched OPT r" "\<not> row_matched NPT r"
  shows "process_row flt cur ann r d = Inr d"
  using assms
  by (auto simp: process_row_def row_matched_def when_matched_def split: list.splits option.splits)

lemma map_of_put_metric:
  "map_of (current_quarter (put_metric b k v w d)) k' =
     (if b \<and> k' = k then Some v else map_of (current_quarter d) k')"
  "map_of (annual_data (put_metric b k v w d)) k' =
     (if b \<and> k' = k then Some w else map_of (annual_data d) k')"
  by (simp_all add: put_metric_def map_of_dict_set)


lemma metricsE:
  assumes "(k, D) \<in> set metrics"
  obtains "k = ''Revenue''" "D = RT" | "k = ''Operating Profit''" "D = OPT" | "k = ''Net Profit''" "D = NPT"
  using assms by (auto simp: metrics_def)

lemma process_row_frame:
  assumes "process_row flt cur ann r d = Inr d'" and "(k, D) \<in> set metrics" and "\<not> row_matched D r"
  shows "map_of (current_quarter d') k = map_of (current_quarter d) k \<and>
         map_of (annual_data d') k = map_of (annual_data d) k"
proof (cases r)
  case Nil
  with assms(1) show ?thesis by (simp add: process_row_def)
next
  case (Cons c rest)
  show ?thesis
  proof (cases c)
    case None
    with Cons assms(1) show ?thesis by (simp add: process_row_def)
  next
    case (Some label)
    note r = Cons [unfolded Some]
    show ?thesis
    proof (cases "matched RT (Some label) \<or> matched OPT (Some label) \<or> matched NPT (Some label)")
      case False
      then have "process_row flt cur ann r d = Inr d"
        by (intro process_row_unmatched) (simp_all add: r row_matched_def)
      with assms(1) show ?thesis by simp
    next
      case True
      have "cell_parses flt cur r \<and> cell_parses flt ann r"
        using process_row_fail [of flt cur label rest ann d] True assms(1) r by auto
      then obtain v w where vw: "cell_value flt cur r = Inr v" "cell_value flt ann r = Inr w"
        using cell_value_Inr_iff by metis
      from assms(1) have d': "d' = put_metric (matched NPT (Some label)) ''Net Profit'' v w
           (put_metric (matched OPT (Some label)) ''Operating Profit'' v w
             (put_metric (matched RT (Some label)) ''Revenue'' v w d))"
        using process_row_ok [of flt cur label rest v ann w d] vw r by simp
      from assms(3) have nm: "\<not> matched D (Some label)" by (simp add: r row_matched_def)
      from assms(2) show ?thesis
        by (rule metricsE) (use nm in \<open>simp_all add: d' map_of_put_metric\<close>)
    qed
  qed
qed

lemma process_row_hit:
  assumes "process_row flt cur ann r d = Inr d'" and "(k, D) \<in> set metrics" and "row_matched D r"
  shows "\<exists>v w. cell_value flt cur r = Inr v \<and> cell_value flt ann r = Inr w \<and>
           map_of (current_quarter d') k = Some v \<and> map_of (annual_data d') k = Some w"
proof -
  from assms(3) obtain label rest where r: "r = Some label # rest" and m: "matched D (Some label)"
    by (auto simp: row_matched_def split: list.splits option.splits)
  have any: "matched RT (Some label) \<or> matched OPT (Some label) \<or> matched NPT (Some label)"
    using assms(2) m by (auto elim!: metricsE)
  have "cell_parses flt cur r \<and> cell_parses flt ann r"
    using process_row_fail [of flt cur label rest ann d] any assms(1) r by auto
  then obtain v w where vw: "cell_value flt cur r = Inr v" "cell_value flt ann r = Inr w"
    using cell_value_Inr_iff by metis
  from assms(1) have d': "d' = put_metric (matched NPT (Some label)) ''Net Profit'' v w
       (put_metric (matched OPT (Some label)) ''Operating Profit'' v w
         (put_metric (matched RT (Some label)) ''Revenue'' v w d))"
    using process_row_ok [of flt cur label rest v ann w d] vw r by simp
  have "map_of (current_quarter d') k = Some v \<and> map_of (annual_data d') k = Some w"
    using assms(2) by (rule metricsE) (use m in \<open>simp_all add: d' map_of_put_metric\<close>)
  with vw show ?thesis by blast
qed

lemma process_rows_append:
  "process_rows flt cur ann (xs @ ys) d =
     (case process_rows flt cur ann xs d of Inl e \<Rightarrow> Inl e | Inr d' \<Rightarrow> process_rows flt cur ann ys d')"
  by (induction xs arbitrary: d) (auto split: sum.splits)

lemma process_rows_frame:
  assumes "process_rows flt cur ann rs d = Inr d'" and "(k, D) \<in> set metrics"
    and "\<forall>r \<in> set rs. \<not> row_matched D r"
  shows "map_of (current_quarter d') k = map_of (current_quarter d) k \<and>
         map_of (annual_data d') k = map_of (annual_data d) k"
  using assms
proof (induction rs arbitrary: d)
  case Nil
  then show ?case by simp
next
  case (Cons r rs)
  from Cons.prems(1) obtain d1 where 1: "process_row flt cur ann r d = Inr d1"
    and 2: "process_rows flt cur ann rs d1 = Inr d'"
    by (auto split: sum.splits)
  from process_row_frame [OF 1 Cons.prems(2)] Cons.prems(3)
  have "map_of (current_quarter d1) k = map_of (current_quarter d) k \<and>
         map_of (annual_data d1) k = map_of (annual_data d) k" by simp
  moreover from Cons.IH [OF 2 Cons.prems(2)] Cons.prems(3)
  have "map_of (current_quarter d') k = map_of (current_quarter d1) k \<and>
         map_of (annual_data d') k = map_of (annual_data d1) k" by simp
  ultimately show ?case by simp
qed

lemma process_rows_last_match:
  assumes "process_rows flt cur ann (pre @ r # post) d = Inr d'" and "(k, D) \<in> set metrics"
    and "row_matched D r" and "\<forall>r' \<in> set post. \<not> row_matched D r'"
  shows "\<exists>v w. cell_value flt cur r = Inr v \<and> cell_value flt ann r = Inr w \<and>
           map_of (current_quarter d') k = Some v \<and> map_of (annual_data d') k = Some w"
proof -
  from assms(1) obtain d0 d1 where 0: "process_rows flt cur ann pre d = Inr d0"
    and 1: "process_row flt cur ann r d0 = Inr d1"
    and 2: "process_rows flt cur ann post d1 = Inr d'"
    by (auto simp: process_rows_append split: sum.splits)
  from process_row_hit [OF 1 assms(2,3)] obtain v w where
    vw: "cell_value flt cur r = Inr v" "cell_value flt ann r = Inr w"
      "map_of (current_quarter d1) k = Some v" "map_of (annual_data d1) k = Some w" by blast
  from process_rows_frame [OF 2 assms(2,4)] vw show ?thesis by simp
qed

lemma extract_financial_values_Table:
  "column_indices (hd tbl) = (Some cur, Some ann) \<Longrightarrow> tbl \<noteq> [] \<Longrightarrow>
     extract_financial_values flt (Table tbl) = process_rows flt cur ann tbl initial_data"
  by (cases tbl) (simp_all add: extract_financial_values_def)

lemma extract_financial_values_unmapped:
  "fst (column_indices (hd tbl)) = None \<or> snd (column_indices (hd tbl)) = None \<Longrightarrow>
     extract_financial_values flt (Table tbl) = Inr initial_data"
  by (cases tbl) (auto simp: extract_financial_values_def split: prod.splits option.splits)


lemma row_matched_any_iff:
  "row_matched_any r = (row_matched RT r \<or> row_matched OPT r \<or> row_matched NPT r)"
  by (simp add: row_matched_any_def metrics_def)

lemma process_row_Inl: "process_row flt cur ann r d = Inl e \<Longrightarrow> e = ValueError"
  by (auto simp: process_row_def when_matched_def set_metric_def
      split: list.splits option.splits sum.splits if_splits dest: cell_value_Inl)

lemma process_row_Inr_iff:
  "(\<exists>d'. process_row flt cur ann r d = Inr d') =
     (row_matched_any r \<longrightarrow> cell_parses flt cur r \<and> cell_parses flt ann r)"
proof (cases "row_matched_any r")
  case False
  then show ?thesis
    using process_row_unmatched [of r flt cur ann d] by (simp add: row_matched_any_iff)
next
  case True
  then obtain label rest where r: "r = Some label # rest"
    and m: "matched RT (Some label) \<or> matched OPT (Some label) \<or> matched NPT (Some label)"
    by (auto simp: row_matched_any_iff row_matched_def split: list.splits option.splits)
  show ?thesis
  proof (cases "cell_parses flt cur r \<and> cell_parses flt ann r")
    case ok: True
    then obtain v w where "cell_value flt cur r = Inr v" "cell_value flt ann r = Inr w"
      using cell_value_Inr_iff by metis
    then show ?thesis
      using process_row_ok [of flt cur label rest v ann w d] True ok r by simp
  next
    case bad: False
    then have "process_row flt cur ann r d = Inl ValueError"
      using process_row_fail [of flt cur label rest ann d] m r by auto
    with True bad show ?thesis by simp
  qed
qed

lemma process_rows_Inl: "process_rows flt cur ann rs d = Inl e \<Longrightarrow> e = ValueError"
  by (induction rs arbitrary: d) (auto split: sum.splits dest: process_row_Inl)

lemma process_rows_Inr_iff:
  "(\<exists>d'. process_rows flt cur ann rs d = Inr d') =
     (\<forall>r \<in> set rs. row_matched_any r \<longrightarrow> cell_parses flt cur r \<and> cell_parses flt ann r)"
proof (induction rs arbitrary: d)
  case Nil
  show ?case by simp
next
  case (Cons r rs)
  show ?case
  proof (cases "process_row flt cur ann r d")
    case (Inl e)
    then have "\<not> (\<exists>d'. process_row flt cur ann r d = Inr d')" by simp
    then have "\<not> (row_matched_any r \<longrightarrow> cell_parses flt cur r \<and> cell_parses flt ann r)"
      using process_row_Inr_iff [of flt cur ann r d] by blast
    with Inl show ?thesis by auto
  next
    case (Inr d1)
    then have "\<exists>d'. process_row flt cur ann r d = Inr d'" by simp
    then have "row_matched_any r \<longrightarrow> cell_parses flt cur r \<and> cell_parses flt ann r"
      using process_row_Inr_iff [of flt cur ann r d] by blast
    with Inr Cons.IH [of d1] show ?thesis by simp
  qed
qed

section \<open>Concrete tables\<close>

lemma hdr3_indices:
  "column_indices [Some ''Particulars'', Some ''Quarter ended'', Some ''Year ended''] = (Some 1, Some 2)"
  by code_simp

lemma matched_total_revenue:
  "matched RT (Some ''Total Revenue'')" "\<not> matched OPT (Some ''Total Revenue'')"
  "\<not> matched NPT (Some ''Total Revenue'')"
  by code_simp+

lemma matched_revenue_from_operations:
  "matched RT (Some ''Revenue from operations'')" "\<not> matched OPT (Some ''Revenue from operations'')"
  "\<not> matched NPT (Some ''Revenue from operations'')"
  by code_simp+

lemma matched_particulars:
  "\<not> matched RT (Some ''Particulars'')" "\<not> matched OPT (Some ''Particulars'')"
  "\<not> matched NPT (Some ''Particulars'')"
  by code_simp+

lemma matched_net_profit_before_tax:
  "\<not> matched RT (Some ''Net Profit before tax'')" "matched OPT (Some ''Net Profit before tax'')"
  "matched NPT (Some ''Net Profit before tax'')"
  by code_simp+

lemma dec_float_values:
  "dec_float ''0'' = Some 0" "dec_float ''100'' = Some 100" "dec_float ''400'' = Some 400"
  "dec_float ''1234'' = Some 1234" "dec_float ''5000'' = Some 5000" "dec_float ''N.A.'' = None"
  by (simp_all add: dec_float_def dec_unsigned_def is_digit_def digits_val_def digit_val_def)

lemma remove_commas_values:
  "remove_commas ''0'' = ''0''" "remove_commas ''100'' = ''100''" "remove_commas ''400'' = ''400''"
  "remove_commas ''1,234'' = ''1234''" "remove_commas ''5,000'' = ''5000''"
  "remove_commas ''N.A.'' = ''N.A.''"
  by (simp_all add: remove_commas_def)

lemmas eval_row = process_row_def when_matched_def set_metric_def cell_value_def cell_truthy_def
  cell_str_def dict_set_def initial_data_def


lemma table_one_revenue_row:
  "extract_financial_values dec_float
     (Table [[Some ''Particulars'', Some ''Quarter ended'', Some ''Year ended''],
             [Some ''Total Revenue'', Some ''100'', Some ''400'']]) =
   Inr \<lparr>current_quarter = [(''Revenue'', PFloat 100), (''Operating Profit'', PNone), (''Net Profit'', PNone)],
        annual_data = [(''Revenue'', PFloat 400), (''Operating Profit'', PNone), (''Net Profit'', PNone)]\<rparr>"
  by (simp add: extract_financial_values_def hdr3_indices eval_row matched_total_revenue
      matched_particulars dec_float_values remove_commas_values)

lemma table_revenue_then_blank_row:
  "extract_financial_values dec_float
     (Table [[Some ''Particulars'', Some ''Quarter ended'', Some ''Year ended''],
             [Some ''Total Revenue'', Some ''100'', Some ''400''],
             [Some ''Revenue from operations'', None, None]]) =
   Inr \<lparr>current_quarter = [(''Revenue'', PNone), (''Operating Profit'', PNone), (''Net Profit'', PNone)],
        annual_data = [(''Revenue'', PNone), (''Operating Profit'', PNone), (''Net Profit'', PNone)]\<rparr>"
  by (simp add: extract_financial_values_def hdr3_indices eval_row matched_total_revenue
      matched_revenue_from_operations matched_particulars dec_float_values remove_commas_values)

lemma table_two_revenue_rows:
  "extract_financial_values dec_float
     (Table [[Some ''Particulars'', Some ''Quarter ended'', Some ''Year ended''],
             [Some ''Revenue from operations'', Some ''100'', Some ''400''],
             [Some ''Total Revenue'', Some ''1,234'', Some ''5,000'']]) =
   Inr \<lparr>current_quarter = [(''Revenue'', PFloat 1234), (''Operating Profit'', PNone), (''Net Profit'', PNone)],
        annual_data = [(''Revenue'', PFloat 5000), (''Operating Profit'', PNone), (''Net Profit'', PNone)]\<rparr>"
  by (simp add: extract_financial_values_def hdr3_indices eval_row matched_total_revenue
      matched_revenue_from_operations matched_particulars dec_float_values remove_commas_values)

lemma particulars_header:
  "has_particulars_header [Some ''Particulars'', Some ''Quarter ended'', Some ''Year ended'']"
  by code_simp

section \<open>Missing cells and the last matching row\<close>

text \<open>
  C4, as stated, fails: a matching row whose targeted cells are absent does not leave the
  value of an earlier matching row in place.  With the first data row alone the revenue is
  100 and 400; the second data row, which matches the revenue dictionary and has empty
  cells, sets both revenue fields back to \<open>None\<close>.
\<close>

theorem missing_cell_erases_earlier_value:
  "extract_financial_values dec_float
     (Table [[Some ''Particulars'', Some ''Quarter ended'', Some ''Year ended''],
             [Some ''Total Revenue'', Some ''100'', Some ''400'']]) =
   Inr \<lparr>current_quarter = [(''Revenue'', PFloat 100), (''Operating Profit'', PNone), (''Net Profit'', PNone)],
        annual_data = [(''Revenue'', PFloat 400), (''Operating Profit'', PNone), (''Net Profit'', PNone)]\<rparr> \<and>
   extract_financial_values dec_float
     (Table [[Some ''Particulars'', Some ''Quarter ended'', Some ''Year ended''],
             [Some ''Total Revenue'', Some ''100'', Some ''400''],
             [Some ''Revenue from operations'', None, None]]) =
   Inr \<lparr>current_quarter = [(''Revenue'', PNone), (''Operating Profit'', PNone), (''Net Profit'', PNone)],
        annual_data = [(''Revenue'', PNone), (''Operating Profit'', PNone), (''Net Profit'', PNone)]\<rparr>"
  using table_one_revenue_row table_revenue_then_blank_row by simp

text \<open>
  C4, amended.  When the extraction of a table succeeds, each metric holds what the last
  row matching its dictionary gives: for a targeted (current-period or annual) cell that is
  absent, out of range or empty the field is \<open>None\<close>, whatever an earlier matching row
  had stored there; for a targeted cell that is present the field is the float read from
  the cell with its commas removed.
\<close>

theorem extract_financial_values_last_match:
  assumes "column_indices (hd (pre @ r # post)) = (Some cur, Some ann)"
    and "extract_financial_values flt (Table (pre @ r # post)) = Inr d'"
    and "(k, D) \<in> set metrics"
    and "row_matched D r"
    and "\<forall>r' \<in> set post. \<not> row_matched D r'"
  shows "(\<not> cell_present cur r \<longrightarrow> map_of (current_quarter d') k = Some PNone) \<and>
         (cell_present cur r \<longrightarrow>
            (\<exists>x. flt (remove_commas (cell_str (r ! cur))) = Some x \<and>
                 map_of (current_quarter d') k = Some (PFloat x))) \<and>
         (\<not> cell_present ann r \<longrightarrow> map_of (annual_data d') k = Some PNone) \<and>
         (cell_present ann r \<longrightarrow>
            (\<exists>x. flt (remove_commas (cell_str (r ! ann))) = Some x \<and>
                 map_of (annual_data d') k = Some (PFloat x)))"
proof -
  have "process_rows flt cur ann (pre @ r # post) initial_data = Inr d'"
    using extract_financial_values_Table [OF assms(1), of flt] assms(2) by simp
  from process_rows_last_match [OF this assms(3,4,5)] obtain v w where
    v: "cell_value flt cur r = Inr v" and w: "cell_value flt ann r = Inr w" and
    cq: "map_of (current_quarter d') k = Some v" and ad: "map_of (annual_data d') k = Some w"
    by blast
  have 1: "\<not> cell_present cur r \<longrightarrow> map_of (current_quarter d') k = Some PNone"
    using v cq cell_value_absent [of cur r flt] by auto
  have 2: "cell_present cur r \<longrightarrow>
      (\<exists>x. flt (remove_commas (cell_str (r ! cur))) = Some x \<and>
           map_of (current_quarter d') k = Some (PFloat x))"
    using v cq cell_value_present [of cur r flt] by (auto split: option.splits)
  have 3: "\<not> cell_present ann r \<longrightarrow> map_of (annual_data d') k = Some PNone"
    using w ad cell_value_absent [of ann r flt] by auto
  have 4: "cell_present ann r \<longrightarrow>
      (\<exists>x. flt (remove_commas (cell_str (r ! ann))) = Some x \<and>
           map_of (annual_data d') k = Some (PFloat x))"
    using w ad cell_value_present [of ann r flt] by (auto split: option.splits)
  from 1 2 3 4 show ?thesis by blast
qed

theorem extract_financial_values_last_match_witness:
  "map_of (current_quarter
      \<lparr>current_quarter = [(''Revenue'', PNone), (''Operating Profit'', PNone), (''Net Profit'', PNone)],
       annual_data = [(''Revenue'', PNone :: rat pyval), (''Operating Profit'', PNone), (''Net Profit'', PNone)]\<rparr>)
     ''Revenue'' = Some PNone \<and>
   (\<exists>x. dec_float (remove_commas (cell_str ([Some ''Total Revenue'', Some ''1,234'', Some ''5,000''] ! 1))) = Some x \<and>
     map_of (current_quarter
      \<lparr>current_quarter = [(''Revenue'', PFloat 1234), (''Operating Profit'', PNone), (''Net Profit'', PNone)],
       annual_data = [(''Revenue'', PFloat 5000), (''Operating Profit'', PNone), (''Net Profit'', PNone)]\<rparr>)
     ''Revenue'' = Some (PFloat x))"
proof -
  let ?h = "[Some ''Particulars'', Some ''Quarter ended'', Some ''Year ended'']"
  have m: "(''Revenue'', RT) \<in> set metrics" by (simp add: metrics_def)
  have a: "\<not> cell_present 1 [Some ''Revenue from operations'', None, None]"
    by (simp add: cell_present_def cell_truthy_def)
  have b: "cell_present 1 [Some ''Total Revenue'', Some ''1,234'', Some ''5,000'']"
    by (simp add: cell_present_def cell_truthy_def)
  have r1: "row_matched RT [Some ''Revenue from operations'', None, None]"
    by (simp add: row_matched_def matched_revenue_from_operations)
  have r2: "row_matched RT [Some ''Total Revenue'', Some ''1,234'', Some ''5,000'']"
    by (simp add: row_matched_def matched_total_revenue)
  have p: "\<forall>r' \<in> set []. \<not> row_matched RT r'" by simp
  have h1: "column_indices (hd ([?h, [Some ''Total Revenue'', Some ''100'', Some ''400'']] @
      [Some ''Revenue from operations'', None, None] # [])) = (Some 1, Some 2)"
    by (simp add: hdr3_indices)
  have h2: "column_indices (hd ([?h, [Some ''Revenue from operations'', Some ''100'', Some ''400'']] @
      [Some ''Total Revenue'', Some ''1,234'', Some ''5,000''] # [])) = (Some 1, Some 2)"
    by (simp add: hdr3_indices)
  have e1: "extract_financial_values dec_float
      (Table ([?h, [Some ''Total Revenue'', Some ''100'', Some ''400'']] @
          [Some ''Revenue from operations'', None, None] # [])) =
      Inr \<lparr>current_quarter = [(''Revenue'', PNone), (''Operating Profit'', PNone), (''Net Profit'', PNone)],
        annual_data = [(''Revenue'', PNone), (''Operating Profit'', PNone), (''Net Profit'', PNone)]\<rparr>"
    using table_revenue_then_blank_row by simp
  have e2: "extract_financial_values dec_float
      (Table ([?h, [Some ''Revenue from operations'', Some ''100'', Some ''400'']] @
          [Some ''Total Revenue'', Some ''1,234'', Some ''5,000''] # [])) =
      Inr \<lparr>current_quarter = [(''Revenue'', PFloat 1234), (''Operating Profit'', PNone), (''Net Profit'', PNone)],
        annual_data = [(''Revenue'', PFloat 5000), (''Operating Profit'', PNone), (''Net Profit'', PNone)]\<rparr>"
    using table_two_revenue_rows by simp
  from extract_financial_values_last_match [OF h1 e1 m r1 p] a
  have c1: "map_of (current_quarter
      \<lparr>current_quarter = [(''Revenue'', PNone), (''Operating Profit'', PNone), (''Net Profit'', PNone)],
       annual_data = [(''Revenue'', PNone :: rat pyval), (''Operating Profit'', PNone), (''Net Profit'', PNone)]\<rparr>)
     ''Revenue'' = Some PNone"
    by blast
  from extract_financial_values_last_match [OF h2 e2 m r2 p] b
  have c2: "\<exists>x. dec_float (remove_commas (cell_str ([Some ''Total Revenue'', Some ''1,234'', Some ''5,000''] ! 1))) = Some x \<and>
     map_of (current_quarter
      \<lparr>current_quarter = [(''Revenue'', PFloat 1234), (''Operating Profit'', PNone), (''Net Profit'', PNone)],
       annual_data = [(''Revenue'', PFloat 5000), (''Operating Profit'', PNone), (''Net Profit'', PNone)]\<rparr>)
     ''Revenue'' = Some (PFloat x)"
    by blast
  from c1 c2 show ?thesis by (rule conjI)
qed

section \<open>Rows seen by several dictionaries\<close>

lemma table_header_only:
  "extract_financial_values dec_float
     (Table [[Some ''Particulars'', Some ''Quarter ended'', Some ''Year ended'']]) = Inr initial_data"
  by (simp add: extract_financial_values_def hdr3_indices eval_row matched_particulars)

text \<open>
  C7.  Let a table be extracted without error, and let a row be appended whose first cell
  is a label and whose two targeted cells can be read.  Then the longer table is extracted
  without error as well, and every metric whose dictionary finds a synonym in the label
  holds that row's current-period and annual values, so a label seen by several
  dictionaries populates all of their fields from the same row; the metrics whose
  dictionary finds nothing keep the values they had before the row.
\<close>

theorem multi_dictionary_row_populates_all:
  assumes "column_indices header = (Some cur, Some ann)"
    and "extract_financial_values flt (Table (header # body)) = Inr d"
    and "r = Some label # rest"
    and "cell_value flt cur r = Inr v"
    and "cell_value flt ann r = Inr w"
  shows "\<exists>d'. extract_financial_values flt (Table (header # body @ [r])) = Inr d' \<and>
           (\<forall>(k, D) \<in> set metrics.
              if matched D (Some label)
              then map_of (current_quarter d') k = Some v \<and> map_of (annual_data d') k = Some w
              else map_of (current_quarter d') k = map_of (current_quarter d) k \<and>
                   map_of (annual_data d') k = map_of (annual_data d) k)"
proof -
  let ?d = "put_metric (matched NPT (Some label)) ''Net Profit'' v w
           (put_metric (matched OPT (Some label)) ''Operating Profit'' v w
             (put_metric (matched RT (Some label)) ''Revenue'' v w d))"
  have before: "process_rows flt cur ann (header # body) initial_data = Inr d"
    using extract_financial_values_Table [of "header # body" cur ann flt] assms(1,2) by simp
  have row: "process_row flt cur ann r d = Inr ?d"
    using process_row_ok [of flt cur label rest v ann w d] assms(3,4,5) by simp
  have "process_rows flt cur ann ((header # body) @ [r]) initial_data =
      (case process_rows flt cur ann (header # body) initial_data of
         Inl e \<Rightarrow> Inl e
       | Inr d' \<Rightarrow> process_rows flt cur ann [r] d')"
    by (rule process_rows_append)
  also have "\<dots> = process_rows flt cur ann [r] d"
    by (simp only: before sum.case)
  also have "\<dots> = Inr ?d"
    by (simp add: row)
  finally have "process_rows flt cur ann ((header # body) @ [r]) initial_data = Inr ?d" .
  then have "extract_financial_values flt (Table (header # body @ [r])) = Inr ?d"
    using extract_financial_values_Table [of "header # body @ [r]" cur ann flt] assms(1) by simp
  moreover have "\<forall>(k, D) \<in> set metrics.
              if matched D (Some label)
              then map_of (current_quarter ?d) k = Some v \<and> map_of (annual_data ?d) k = Some w
              else map_of (current_quarter ?d) k = map_of (current_quarter d) k \<and>
                   map_of (annual_data ?d) k = map_of (annual_data d) k"
    by (simp add: metrics_def map_of_put_metric)
  ultimately show ?thesis by blast
qed

theorem multi_dictionary_row_populates_all_witness:
  "\<exists>d'. extract_financial_values dec_float
       (Table [[Some ''Particulars'', Some ''Quarter ended'', Some ''Year ended''],
               [Some ''Net Profit before tax'', Some ''100'', Some ''400'']]) = Inr d' \<and>
     map_of (current_quarter d') ''Operating Profit'' = Some (PFloat 100) \<and>
     map_of (annual_data d') ''Operating Profit'' = Some (PFloat 400) \<and>
     map_of (current_quarter d') ''Net Profit'' = Some (PFloat 100) \<and>
     map_of (annual_data d') ''Net Profit'' = Some (PFloat 400) \<and>
     map_of (current_quarter d') ''Revenue'' = Some PNone \<and>
     map_of (annual_data d') ''Revenue'' = Some PNone"
proof -
  let ?h = "[Some ''Particulars'', Some ''Quarter ended'', Some ''Year ended'']"
  let ?r = "[Some ''Net Profit before tax'', Some ''100'', Some ''400'']"
  have e: "extract_financial_values dec_float (Table (?h # [])) = Inr initial_data"
    by (rule table_header_only)
  have v: "cell_value dec_float 1 ?r = Inr (PFloat 100)"
    by (simp add: cell_value_def cell_truthy_def cell_str_def remove_commas_values dec_float_values)
  have w: "cell_value dec_float 2 ?r = Inr (PFloat 400)"
    by (simp add: cell_value_def cell_truthy_def cell_str_def remove_commas_values dec_float_values)
  from multi_dictionary_row_populates_all [OF hdr3_indices e refl v w]
  obtain d' where d': "extract_financial_values dec_float (Table (?h # [] @ [?r])) = Inr d'"
    and all: "\<forall>(k, D) \<in> set metrics.
              if matched D (Some ''Net Profit before tax'')
              then map_of (current_quarter d') k = Some (PFloat 100) \<and>
                   map_of (annual_data d') k = Some (PFloat 400)
              else map_of (current_quarter d') k = map_of (current_quarter initial_data) k \<and>
                   map_of (annual_data d') k = map_of (annual_data initial_data) k"
    by blast
  from all have "map_of (current_quarter d') ''Operating Profit'' = Some (PFloat 100) \<and>
     map_of (annual_data d') ''Operating Profit'' = Some (PFloat 400) \<and>
     map_of (current_quarter d') ''Net Profit'' = Some (PFloat 100) \<and>
     map_of (annual_data d') ''Net Profit'' = Some (PFloat 400) \<and>
     map_of (current_quarter d') ''Revenue'' = Some PNone \<and>
     map_of (annual_data d') ''Revenue'' = Some PNone"
    by (simp add: metrics_def matched_net_profit_before_tax initial_data_def)
  with d' show ?thesis by auto
qed

section \<open>Totality of the value extraction\<close>

lemma table_placeholder_cell:
  "flt ''N.A.'' = None \<Longrightarrow>
   extract_financial_values flt
     (Table [[Some ''Particulars'', Some ''Quarter ended'', Some ''Year ended''],
             [Some ''Total Revenue'', Some ''N.A.'', Some ''400'']]) = Inl ValueError"
  by (simp add: extract_financial_values_def hdr3_indices eval_row matched_total_revenue
      matched_particulars remove_commas_values)

text \<open>
  C10.  For a table whose header yields both column indices, \<open>extract_financial_values\<close>
  returns data exactly when, in every row seen by some dictionary (the header row
  included), each of the two targeted cells is absent, out of range or empty, or is
  accepted by \<open>float\<close> after its commas are removed; otherwise the \<open>ValueError\<close> of
  \<open>float\<close> leaves the function.  A table with the placeholder \<open>N.A.\<close> in a targeted cell of
  a matched row is such a failing input whenever \<open>float\<close> rejects \<open>N.A.\<close>.
\<close>

theorem extract_financial_values_total_iff:
  assumes "column_indices header = (Some cur, Some ann)"
  shows "((\<exists>d. extract_financial_values flt (Table (header # rest)) = Inr d) =
            (\<forall>r \<in> set (header # rest).
               row_matched_any r \<longrightarrow> cell_parses flt cur r \<and> cell_parses flt ann r)) \<and>
         ((\<nexists>d. extract_financial_values flt (Table (header # rest)) = Inr d) \<longrightarrow>
            extract_financial_values flt (Table (header # rest)) = Inl ValueError) \<and>
         (flt ''N.A.'' = None \<longrightarrow>
            extract_financial_values flt
              (Table [[Some ''Particulars'', Some ''Quarter ended'', Some ''Year ended''],
                      [Some ''Total Revenue'', Some ''N.A.'', Some ''400'']]) = Inl ValueError)"
proof -
  have eq: "extract_financial_values flt (Table (header # rest)) =
      process_rows flt cur ann (header # rest) initial_data"
    using extract_financial_values_Table [of "header # rest" cur ann flt] assms by simp
  have 1: "(\<exists>d. extract_financial_values flt (Table (header # rest)) = Inr d) =
            (\<forall>r \<in> set (header # rest).
               row_matched_any r \<longrightarrow> cell_parses flt cur r \<and> cell_parses flt ann r)"
    unfolding eq by (rule process_rows_Inr_iff)
  have 2: "(\<nexists>d. extract_financial_values flt (Table (header # rest)) = Inr d) \<longrightarrow>
            extract_financial_values flt (Table (header # rest)) = Inl ValueError"
  proof (cases "process_rows flt cur ann (header # rest) initial_data")
    case (Inl e)
    from process_rows_Inl [OF this] Inl show ?thesis unfolding eq by simp
  next
    case (Inr d)
    then show ?thesis unfolding eq by simp
  qed
  from 1 2 table_placeholder_cell [of flt] show ?thesis by blast
qed

theorem extract_financial_values_total_iff_witness:
  "(\<exists>d. extract_financial_values dec_float
      (Table [[Some ''Particulars'', Some ''Quarter ended'', Some ''Year ended''],
              [Some ''Total Revenue'', Some ''100'', Some ''400'']]) = Inr d) \<and>
   row_matched_any [Some ''Total Revenue'', Some ''N.A.'', Some ''400''] \<and>
   \<not> cell_parses dec_float 1 [Some ''Total Revenue'', Some ''N.A.'', Some ''400''] \<and>
   (\<nexists>d. extract_financial_values dec_float
      (Table [[Some ''Particulars'', Some ''Quarter ended'', Some ''Year ended''],
              [Some ''Total Revenue'', Some ''N.A.'', Some ''400'']]) = Inr d) \<and>
   extract_financial_values dec_float
      (Table [[Some ''Particulars'', Some ''Quarter ended'', Some ''Year ended''],
              [Some ''Total Revenue'', Some ''N.A.'', Some ''400'']]) = Inl ValueError"
proof -
  let ?h = "[Some ''Particulars'', Some ''Quarter ended'', Some ''Year ended'']"
  let ?good = "[Some ''Total Revenue'', Some ''100'', Some ''400'']"
  let ?bad = "[Some ''Total Revenue'', Some ''N.A.'', Some ''400'']"
  have h: "column_indices ?h = (Some 1, Some 2)" by (rule hdr3_indices)
  have nh: "\<not> row_matched_any ?h"
    by (simp add: row_matched_any_iff row_matched_def matched_particulars)
  have m: "row_matched_any ?bad"
    by (simp add: row_matched_any_iff row_matched_def matched_total_revenue)
  have g: "cell_parses dec_float 1 ?good \<and> cell_parses dec_float 2 ?good"
    by (simp add: cell_parses_def cell_str_def remove_commas_values dec_float_values)
  have b: "\<not> cell_parses dec_float 1 ?bad"
    by (simp add: cell_parses_def cell_present_def cell_truthy_def cell_str_def
        remove_commas_values dec_float_values)
  note good = extract_financial_values_total_iff [OF h, of dec_float "[?good]"]
  note bad = extract_financial_values_total_iff [OF h, of dec_float "[?bad]"]
  have 1: "\<exists>d. extract_financial_values dec_float (Table [?h, ?good]) = Inr d"
    using good nh g by simp
  have 2: "\<nexists>d. extract_financial_values dec_float (Table [?h, ?bad]) = Inr d"
    using bad m b by simp
  have 3: "extract_financial_values dec_float (Table [?h, ?bad]) = Inl ValueError"
    using bad 2 by blast
  from 1 m b 2 3 show ?thesis by blast
qed

section \<open>Column mapping\<close>

lemma hdr_two_year_columns:
  "column_indices [Some ''Particulars'', Some ''Quarter ended 31.03.2024'',
                   Some ''Year ended 31.03.2024'', Some ''Year ended 31.03.2023''] = (Some 1, Some 3)"
  by code_simp

lemma hdr_year_cell_2:
  "is_year_ended_cell ([Some ''Particulars'', Some ''Quarter ended 31.03.2024'',
                   Some ''Year ended 31.03.2024'', Some ''Year ended 31.03.2023''] ! 2)"
  by code_simp

lemma hdr_spec_example:
  "column_indices [Some ''Sr. No.'', None, Some ''Particulars'', Some ''Quarter ended'', Some '''',
                   Some ''Year Ended 31 Mar 2024''] = (Some 3, Some 5)"
  by code_simp

lemma hdr_no_year_column:
  "column_indices [Some ''Particulars'', Some ''Quarter ended'', Some ''Nine months''] = (Some 1, None)"
  by code_simp

text \<open>
  C6, as stated, fails when the header has more than one marker cell.  In a header with a
  column for the year ended 31.03.2024 at index 2 and one for the year ended 31.03.2023 at
  index 3, the cell at index 2 contains \<open>year ended\<close>, yet the annual column index is 3.
\<close>

theorem annual_index_not_every_marker:
  "is_year_ended_cell ([Some ''Particulars'', Some ''Quarter ended 31.03.2024'',
                        Some ''Year ended 31.03.2024'', Some ''Year ended 31.03.2023''] ! 2) \<and>
   snd (column_indices [Some ''Particulars'', Some ''Quarter ended 31.03.2024'',
                        Some ''Year ended 31.03.2024'', Some ''Year ended 31.03.2023'']) \<noteq> Some 2"
  using hdr_year_cell_2 hdr_two_year_columns by simp

text \<open>
  C6, amended.  The current-period column index is \<open>i + 1\<close> for the last header cell, at
  index \<open>i\<close>, that contains \<open>Particular\<close>, and the annual column index is the index of the
  last header cell that contains \<open>year ended\<close> in any letter case; an index is missing
  exactly when no header cell has its marker.  If either index is missing,
  \<open>extract_financial_values\<close> returns the initial data, in which every financial value of
  both periods is \<open>None\<close>.
\<close>

theorem column_mapping_last_marker:
  assumes "column_indices header = (cur, ann)"
  shows "((cur = None) = (\<forall>c \<in> set header. \<not> is_particular_cell c)) \<and>
         (\<forall>k. cur = Some k \<longrightarrow>
            (\<exists>i < length header. k = i + 1 \<and> is_particular_cell (header ! i) \<and>
               (\<forall>m < length header. i < m \<longrightarrow> \<not> is_particular_cell (header ! m)))) \<and>
         ((ann = None) = (\<forall>c \<in> set header. \<not> is_year_ended_cell c)) \<and>
         (\<forall>k. ann = Some k \<longrightarrow>
            k < length header \<and> is_year_ended_cell (header ! k) \<and>
               (\<forall>m < length header. k < m \<longrightarrow> \<not> is_year_ended_cell (header ! m))) \<and>
         (cur = None \<or> ann = None \<longrightarrow>
            extract_financial_values flt (Table (header # rest)) = Inr initial_data \<and>
            (\<forall>(k, v) \<in> set (current_quarter (initial_data :: 'f fin_data)) \<union>
                         set (annual_data (initial_data :: 'f fin_data)). v = PNone))"
proof -
  from assms have cur: "cur = map_option Suc (last_index is_particular_cell header 0 None)"
    and ann: "ann = last_index is_year_ended_cell header 0 None"
    by (simp_all add: column_indices_last_index)
  have 1: "(cur = None) = (\<forall>c \<in> set header. \<not> is_particular_cell c)"
    by (simp add: cur last_index_None)
  have 2: "\<forall>k. cur = Some k \<longrightarrow>
            (\<exists>i < length header. k = i + 1 \<and> is_particular_cell (header ! i) \<and>
               (\<forall>m < length header. i < m \<longrightarrow> \<not> is_particular_cell (header ! m)))"
  proof (intro allI impI)
    fix k assume "cur = Some k"
    then obtain j where j: "last_index is_particular_cell header 0 None = Some j" and k: "k = Suc j"
      by (auto simp: cur)
    from last_index_Some [OF j] k
    show "\<exists>i < length header. k = i + 1 \<and> is_particular_cell (header ! i) \<and>
               (\<forall>m < length header. i < m \<longrightarrow> \<not> is_particular_cell (header ! m))"
      by auto
  qed
  have 3: "(ann = None) = (\<forall>c \<in> set header. \<not> is_year_ended_cell c)"
    by (simp add: ann last_index_None)
  have 4: "\<forall>k. ann = Some k \<longrightarrow>
            k < length header \<and> is_year_ended_cell (header ! k) \<and>
               (\<forall>m < length header. k < m \<longrightarrow> \<not> is_year_ended_cell (header ! m))"
  proof (intro allI impI)
    fix k assume "ann = Some k"
    then have "last_index is_year_ended_cell header 0 None = Some k" by (simp add: ann)
    from last_index_Some [OF this]
    show "k < length header \<and> is_year_ended_cell (header ! k) \<and>
               (\<forall>m < length header. k < m \<longrightarrow> \<not> is_year_ended_cell (header ! m))"
      by auto
  qed
  have 5: "cur = None \<or> ann = None \<longrightarrow>
            extract_financial_values flt (Table (header # rest)) = Inr initial_data \<and>
            (\<forall>(k, v) \<in> set (current_quarter (initial_data :: 'f fin_data)) \<union>
                         set (annual_data (initial_data :: 'f fin_data)). v = PNone)"
  proof
    assume "cur = None \<or> ann = None"
    then have "extract_financial_values flt (Table (header # rest)) = Inr initial_data"
      using extract_financial_values_unmapped [of "header # rest" flt] assms by auto
    then show "extract_financial_values flt (Table (header # rest)) = Inr initial_data \<and>
            (\<forall>(k, v) \<in> set (current_quarter (initial_data :: 'f fin_data)) \<union>
                         set (annual_data (initial_data :: 'f fin_data)). v = PNone)"
      by (simp add: initial_data_def)
  qed
  from 1 2 3 4 5 show ?thesis by blast
qed

theorem column_mapping_last_marker_witness:
  "column_indices [Some ''Sr. No.'', None, Some ''Particulars'', Some ''Quarter ended'', Some '''',
                   Some ''Year Ended 31 Mar 2024''] = (Some 3, Some 5) \<and>
   (\<exists>i < 6. (3::nat) = i + 1 \<and>
      is_particular_cell ([Some ''Sr. No.'', None, Some ''Particulars'', Some ''Quarter ended'', Some '''',
                   Some ''Year Ended 31 Mar 2024''] ! i)) \<and>
   is_year_ended_cell ([Some ''Sr. No.'', None, Some ''Particulars'', Some ''Quarter ended'', Some '''',
                   Some ''Year Ended 31 Mar 2024''] ! 5) \<and>
   \<not> is_year_ended_cell (Some ''Nine months'') \<and>
   extract_financial_values dec_float
     (Table [[Some ''Particulars'', Some ''Quarter ended'', Some ''Nine months''],
             [Some ''Total Revenue'', Some ''100'', Some ''400'']]) = Inr initial_data"
proof -
  let ?h = "[Some ''Sr. No.'', None, Some ''Particulars'', Some ''Quarter ended'', Some '''',
             Some ''Year Ended 31 Mar 2024'']"
  let ?g = "[Some ''Particulars'', Some ''Quarter ended'', Some ''Nine months'']"
  note a = column_mapping_last_marker [OF hdr_spec_example]
  note b = column_mapping_last_marker [OF hdr_no_year_column, of dec_float
      "[[Some ''Total Revenue'', Some ''100'', Some ''400'']]"]
  from a have 1: "\<exists>i < 6. (3::nat) = i + 1 \<and> is_particular_cell (?h ! i)" by simp
  from a have 2: "is_year_ended_cell (?h ! 5)" by simp
  from b have "\<forall>c \<in> set ?g. \<not> is_year_ended_cell c" by blast
  then have 3: "\<not> is_year_ended_cell (Some ''Nine months'')" by simp
  from b have 4: "extract_financial_values dec_float
     (Table [?g, [Some ''Total Revenue'', Some ''100'', Some ''400'']]) = Inr initial_data"
    by blast
  from hdr_spec_example 1 2 3 4 show ?thesis by blast
qed

section \<open>The table locator\<close>

lemma ocr_notes:
  "extract_text_from_image
     \<lparr>page_text = Some ''Notes to the accounts'', page_tables = [],
      page_ocr = [''Notes to the accounts'']\<rparr> = ''Notes to the accounts''"
  by code_simp

lemma strip_notes_again: "strip ''Notes to the accounts'' = ''Notes to the accounts''"
  by code_simp

text \<open>
  C3.  The locator looks at the first page only: its result for a document is its result
  for the document cut down to its first page.  For the two-page document whose first
  page has no table and the recognised text \<open>Notes to the accounts\<close>, and whose second
  page has a table with a \<open>Particulars\<close> header, it returns the text of the first page,
  not the table of the second.
\<close>

theorem extract_table_or_text_first_page_only:
  "extract_table_or_text (pg # rest) = extract_table_or_text [pg] \<and>
   has_particulars_header (hd [[Some ''Particulars'', Some ''Quarter ended'', Some ''Year ended''],
                               [Some ''Total Revenue'', Some ''100'', Some ''400'']]) \<and>
   extract_table_or_text
     [\<lparr>page_text = Some ''Notes to the accounts'', page_tables = [],
       page_ocr = [''Notes to the accounts'']\<rparr>,
      \<lparr>page_text = Some ''Particulars Quarter ended Year ended Total Revenue 100 400'',
       page_tables = [[[Some ''Particulars'', Some ''Quarter ended'', Some ''Year ended''],
                       [Some ''Total Revenue'', Some ''100'', Some ''400'']]],
       page_ocr = []\<rparr>] = Inr (Text ''Notes to the accounts'')"
  by (simp add: ocr_notes strip_notes_again particulars_header)

section \<open>Period resolution\<close>

lemma last_sorted_Max: "sorted xs \<Longrightarrow> xs \<noteq> [] \<Longrightarrow> last xs = Max (set xs)"
proof (induction xs)
  case Nil
  then show ?case by simp
next
  case (Cons x xs)
  show ?case
  proof (cases "xs = []")
    case True
    then show ?thesis by simp
  next
    case False
    with Cons have "last xs = Max (set xs)" by simp
    moreover have "x \<le> Max (set xs)"
      using Cons.prems False by (metis List.finite_set Max_ge last_in_set calculation order_trans sorted_simps(2))
    ultimately show ?thesis using False by (simp add: max_def)
  qed
qed

lemma sorted_reverse_hd:
  "ds \<noteq> [] \<Longrightarrow> sorted_reverse ds ! 0 = Max (set ds)"
proof -
  assume ne: "ds \<noteq> []"
  then have "sort ds \<noteq> []" by (metis length_sort length_0_conv)
  then have "rev (sort ds) ! 0 = last (sort ds)"
    by (simp add: hd_rev hd_conv_nth [symmetric])
  also have "\<dots> = Max (set (sort ds))"
    using \<open>sort ds \<noteq> []\<close> by (intro last_sorted_Max) simp_all
  finally show ?thesis by (simp add: sorted_reverse_def)
qed

lemma example_dates:
  "parsed_dates ''Results for the quarter ended 15-03-2024 and 10-12-2023.'' = [(2024, 3, 15), (2023, 12, 10)]"
  by code_simp

lemma example_periods:
  "extract_dates_from_text ''Results for the quarter ended 15-03-2024 and 10-12-2023.'' =
     (Some ''Q1 2024'', Some ''Q4 2023'')"
  by code_simp

lemma duplicate_dates:
  "parsed_dates ''15-03-2024, 15/03/2024 and 10-12-2023'' = [(2024, 3, 15), (2024, 3, 15), (2023, 12, 10)]"
  by code_simp

lemma duplicate_periods:
  "extract_dates_from_text ''15-03-2024, 15/03/2024 and 10-12-2023'' = (Some ''Q1 2024'', Some ''Q1 2024'')"
  by code_simp

lemma no_dates: "parsed_dates ''Statement of results'' = []"
  by code_simp

lemma one_date: "parsed_dates ''Board meeting held on 1/2/24'' = [(2024, 2, 1)]"
  by code_simp

text \<open>
  C8.  With the dates parsed from the text: if there are none the result is (absent,
  absent); otherwise the latest period is the label of the greatest date; the previous
  period is absent for a single date and otherwise the label of the element at index 1 of
  the dates sorted in descending order, a list that keeps every duplicate.  The label of
  a date is \<open>Q\<close>, the quarter \<open>(month - 1) div 3 + 1\<close>, a blank and the year.  A text with
  15-03-2024 and 10-12-2023 yields \<open>Q1 2024\<close> and \<open>Q4 2023\<close>.
\<close>

theorem extract_dates_from_text_periods:
  "(parsed_dates text = [] \<longrightarrow> extract_dates_from_text text = (None, None)) \<and>
   (parsed_dates text \<noteq> [] \<longrightarrow>
      fst (extract_dates_from_text text) = Some (period_label (Max (set (parsed_dates text))))) \<and>
   (length (parsed_dates text) = 1 \<longrightarrow> snd (extract_dates_from_text text) = None) \<and>
   (1 < length (parsed_dates text) \<longrightarrow>
      snd (extract_dates_from_text text) =
        Some (period_label (sorted_reverse (parsed_dates text) ! 1))) \<and>
   mset (sorted_reverse (parsed_dates text)) = mset (parsed_dates text) \<and>
   sorted (rev (sorted_reverse (parsed_dates text))) \<and>
   (\<forall>y m d. period_label (y, m, d) = ''Q'' @ str_nat ((m - 1) div 3 + 1) @ '' '' @ str_nat y) \<and>
   extract_dates_from_text ''Results for the quarter ended 15-03-2024 and 10-12-2023.'' =
     (Some ''Q1 2024'', Some ''Q4 2023'')"
proof -
  let ?ds = "parsed_dates text"
  have len: "length (sorted_reverse ?ds) = length ?ds" by (simp add: sorted_reverse_def)
  have 1: "?ds = [] \<longrightarrow> extract_dates_from_text text = (None, None)"
    by (simp add: extract_dates_from_text_def)
  have 2: "?ds \<noteq> [] \<longrightarrow> fst (extract_dates_from_text text) = Some (period_label (Max (set ?ds)))"
    using sorted_reverse_hd [of ?ds] by (simp add: extract_dates_from_text_def Let_def)
  have 3: "length ?ds = 1 \<longrightarrow> snd (extract_dates_from_text text) = None"
    using len by (auto simp: extract_dates_from_text_def Let_def)
  have 4: "1 < length ?ds \<longrightarrow>
      snd (extract_dates_from_text text) = Some (period_label (sorted_reverse ?ds ! 1))"
    using len by (auto simp: extract_dates_from_text_def Let_def)
  have 5: "mset (sorted_reverse ?ds) = mset ?ds" by (simp add: sorted_reverse_def)
  have 6: "sorted (rev (sorted_reverse ?ds))" by (simp add: sorted_reverse_def)
  have 7: "\<forall>y m d. period_label (y, m, d) = ''Q'' @ str_nat ((m - 1) div 3 + 1) @ '' '' @ str_nat y"
    by (simp add: period_label_def quarter_def)
  from 1 2 3 4 5 6 7 example_periods show ?thesis by blast
qed


theorem extract_dates_from_text_periods_witness:
  "extract_dates_from_text ''Statement of results'' = (None, None) \<and>
   fst (extract_dates_from_text ''Results for the quarter ended 15-03-2024 and 10-12-2023.'') =
     Some (period_label (Max (set [(2024, 3, 15), (2023, 12, 10)]))) \<and>
   snd (extract_dates_from_text ''Board meeting held on 1/2/24'') = None \<and>
   snd (extract_dates_from_text ''15-03-2024, 15/03/2024 and 10-12-2023'') =
     Some (period_label (sorted_reverse [(2024, 3, 15), (2024, 3, 15), (2023, 12, 10)] ! 1))"
proof -
  note a = extract_dates_from_text_periods [of "''Statement of results''"]
  note b = extract_dates_from_text_periods
    [of "''Results for the quarter ended 15-03-2024 and 10-12-2023.''"]
  note c = extract_dates_from_text_periods [of "''Board meeting held on 1/2/24''"]
  note d = extract_dates_from_text_periods [of "''15-03-2024, 15/03/2024 and 10-12-2023''"]
  from a have 1: "extract_dates_from_text ''Statement of results'' = (None, None)"
    unfolding no_dates by blast
  from b have 2: "fst (extract_dates_from_text
        ''Results for the quarter ended 15-03-2024 and 10-12-2023.'') =
      Some (period_label (Max (set [(2024, 3, 15), (2023, 12, 10)])))"
    unfolding example_dates by blast
  from c have 3: "snd (extract_dates_from_text ''Board meeting held on 1/2/24'') = None"
    unfolding one_date by simp
  from d have 4: "snd (extract_dates_from_text ''15-03-2024, 15/03/2024 and 10-12-2023'') =
      Some (period_label (sorted_reverse [(2024, 3, 15), (2024, 3, 15), (2023, 12, 10)] ! 1))"
    unfolding duplicate_dates by simp
  from 1 2 3 4 show ?thesis by blast
qed

section \<open>Properties of the main function\<close>

lemma returned_extract_fin_data:
  "returned (extract_fin_data env doc) =
     (if strip (document_text doc) = [] then Inr no_data_error
      else (case merged_data env doc of
              Inl e \<Rightarrow> Inl e
            | Inr (d, n) \<Rightarrow> Inr (finish env (document_text doc) d n)))"
  by (auto simp: extract_fin_data_def merged_data_def Let_def split: sum.splits prod.splits)

lemma llm_requests_extract_fin_data:
  "llm_requests (extract_fin_data env doc) =
     (if strip (document_text doc) \<noteq> [] \<and> (\<exists>d. local_data env doc = Inr d \<and> needs_fallback env d)
      then [document_text doc] else [])"
  by (auto simp: extract_fin_data_def Let_def split: sum.splits)

lemma set_dict_set: "(a, b) \<in> set (dict_set k v d) \<Longrightarrow> (a, b) \<in> set d \<or> (a = k \<and> b = v)"
  unfolding dict_set_def by (induction d) (auto split: if_splits)

lemma local_shape_dict_set:
  assumes "local_shape d" and "k \<in> set metric_keys" and "v = PNone \<or> (\<exists>x. v = PFloat x)"
  shows "local_shape (dict_set k v d)"
proof -
  from assms(1,2) have "k \<in> set (map fst d)" by (simp add: local_shape_def)
  then have "map fst (dict_set k v d) = map fst d"
    by (simp add: dict_set_def update_keys)
  moreover have "\<forall>w \<in> set (map snd (dict_set k v d)). w = PNone \<or> (\<exists>x. w = PFloat x)"
    using assms(1,3) set_dict_set [of _ _ k v d] by (fastforce simp: local_shape_def)
  ultimately show ?thesis using assms(1) by (simp add: local_shape_def)
qed

lemma cell_value_shape: "cell_value flt col r = Inr v \<Longrightarrow> v = PNone \<or> (\<exists>x. v = PFloat x)"
  by (auto simp: cell_value_def split: if_splits option.splits)

lemma local_shape_put_metric:
  assumes "local_shape (current_quarter d)" "local_shape (annual_data d)" "k \<in> set metric_keys"
    and "v = PNone \<or> (\<exists>x. v = PFloat x)" "w = PNone \<or> (\<exists>x. w = PFloat x)"
  shows "local_shape (current_quarter (put_metric b k v w d)) \<and>
         local_shape (annual_data (put_metric b k v w d))"
  using assms by (simp add: put_metric_def local_shape_dict_set)

lemma process_row_shape:
  assumes "process_row flt cur ann r d = Inr d'"
    and "local_shape (current_quarter d)" "local_shape (annual_data d)"
  shows "local_shape (current_quarter d') \<and> local_shape (annual_data d')"
proof (cases "row_matched_any r")
  case False
  then have "process_row flt cur ann r d = Inr d"
    using process_row_unmatched [of r flt cur ann d] by (simp add: row_matched_any_iff)
  with assms show ?thesis by simp
next
  case True
  then obtain label rest where r: "r = Some label # rest"
    by (auto simp: row_matched_any_iff row_matched_def split: list.splits option.splits)
  have "\<exists>d'. process_row flt cur ann r d = Inr d'" using assms(1) by blast
  then have "cell_parses flt cur r \<and> cell_parses flt ann r"
    using True by (simp add: process_row_Inr_iff)
  then obtain v w where vw: "cell_value flt cur r = Inr v" "cell_value flt ann r = Inr w"
    using cell_value_Inr_iff by metis
  note sv = cell_value_shape [OF vw(1)] and sw = cell_value_shape [OF vw(2)]
  from assms(1) have d': "d' = put_metric (matched NPT (Some label)) ''Net Profit'' v w
       (put_metric (matched OPT (Some label)) ''Operating Profit'' v w
         (put_metric (matched RT (Some label)) ''Revenue'' v w d))"
    using process_row_ok [of flt cur label rest v ann w d] vw r by simp
  have k: "''Revenue'' \<in> set metric_keys" "''Operating Profit'' \<in> set metric_keys"
    "''Net Profit'' \<in> set metric_keys" by (simp_all add: metric_keys_def)
  note 1 = local_shape_put_metric [OF assms(2,3) k(1) sv sw, of "matched RT (Some label)"]
  note 2 = local_shape_put_metric [OF conjunct1 [OF 1] conjunct2 [OF 1] k(2) sv sw,
      of "matched OPT (Some label)"]
  note 3 = local_shape_put_metric [OF conjunct1 [OF 2] conjunct2 [OF 2] k(3) sv sw,
      of "matched NPT (Some label)"]
  from 3 show ?thesis unfolding d' .
qed

lemma process_rows_shape:
  assumes "process_rows flt cur ann rs d = Inr d'"
    and "local_shape (current_quarter d)" "local_shape (annual_data d)"
  shows "local_shape (current_quarter d') \<and> local_shape (annual_data d')"
  using assms
proof (induction rs arbitrary: d)
  case Nil
  then show ?case by simp
next
  case (Cons r rs)
  from Cons.prems(1) obtain d1 where 1: "process_row flt cur ann r d = Inr d1"
    and 2: "process_rows flt cur ann rs d1 = Inr d'"
    by (auto split: sum.splits)
  from process_row_shape [OF 1 Cons.prems(2,3)] Cons.IH [OF 2] show ?case by simp
qed

lemma initial_data_shape:
  "local_shape (current_quarter initial_data) \<and> local_shape (annual_data initial_data)"
  by (simp add: initial_data_def local_shape_def metric_keys_def)

lemma extract_financial_values_shape:
  assumes "extract_financial_values flt src = Inr d"
  shows "local_shape (current_quarter d) \<and> local_shape (annual_data d)"
proof -
  have "d = initial_data \<or> (\<exists>cur ann rs. process_rows flt cur ann rs initial_data = Inr d)"
    using assms
    by (auto simp del: process_rows.simps simp: extract_financial_values_def
        split: located.splits list.splits prod.splits option.splits)
  then show ?thesis
    using initial_data_shape process_rows_shape [of flt _ _ _ initial_data d] by blast
qed

lemma local_data_shape:
  "local_data env doc = Inr d \<Longrightarrow> local_shape (current_quarter d) \<and> local_shape (annual_data d)"
  by (auto simp: local_data_def split: sum.splits dest: extract_financial_values_shape)

lemma any_values_shape:
  assumes "local_shape d"
  shows "any_values fb d = (\<exists>k \<in> set metric_keys. \<exists>x. map_of d k = Some (PFloat x) \<and> fb x)"
proof -
  from assms have keys: "map fst d = metric_keys" by (simp add: local_shape_def)
  then have dist: "distinct (map fst d)" by (simp add: metric_keys_def)
  have mem: "((k, v) \<in> set d) = (map_of d k = Some v)" for k v
    using dist by simp
  show ?thesis
  proof
    assume "any_values fb d"
    then obtain k v where kv: "(k, v) \<in> set d" "truthy fb v"
      by (auto simp: any_values_def list_ex_iff)
    with assms obtain x where "v = PFloat x" "fb x"
      by (force simp: local_shape_def)
    moreover from kv(1) have "k \<in> set (map fst d)" by force
    ultimately show "\<exists>k \<in> set metric_keys. \<exists>x. map_of d k = Some (PFloat x) \<and> fb x"
      using kv(1) mem keys by auto
  next
    assume "\<exists>k \<in> set metric_keys. \<exists>x. map_of d k = Some (PFloat x) \<and> fb x"
    then obtain k x where "map_of d k = Some (PFloat x)" "fb x" by blast
    then have "(k, PFloat x) \<in> set d" "truthy fb (PFloat x)" using mem by simp_all
    then show "any_values fb d"
      by (auto simp: any_values_def list_ex_iff intro!: bexI [of _ "(k, PFloat x)"])
  qed
qed

lemma not_any_values_shape:
  assumes "local_shape d"
  shows "(\<not> any_values fb d) =
     (\<forall>k \<in> set metric_keys. map_of d k = Some PNone \<or> (\<exists>x. map_of d k = Some (PFloat x) \<and> \<not> fb x))"
proof -
  from assms have keys: "map fst d = metric_keys" by (simp add: local_shape_def)
  have val: "\<exists>v. map_of d k = Some v \<and> (v = PNone \<or> (\<exists>x. v = PFloat x))" if "k \<in> set metric_keys" for k
  proof -
    from that keys have "k \<in> fst ` set d" by (metis set_map)
    then obtain v where v: "map_of d k = Some v" by (metis map_of_eq_None_iff not_Some_eq)
    then have "(k, v) \<in> set d" by (rule map_of_SomeD)
    then have "v \<in> set (map snd d)" by force
    with assms v show ?thesis by (auto simp: local_shape_def)
  qed
  show ?thesis
    unfolding any_values_shape [OF assms] using val by fastforce
qed


lemma map_of_fold_dict_set:
  "map_of (fold (\<lambda>(k, v). dict_set k v) items d) k =
     (case map_of (rev items) k of Some v \<Rightarrow> Some v | None \<Rightarrow> map_of d k)"
proof (induction items arbitrary: d)
  case Nil
  show ?case by simp
next
  case (Cons kv items)
  obtain a b where kv: "kv = (a, b)" by (cases kv)
  show ?case
    by (simp add: kv Cons.IH map_of_dict_set map_of_append map_add_def split: option.splits)
qed

lemma dict_update_Inr:
  "dict_update d x = Inr d' \<Longrightarrow>
     d' = fold (\<lambda>(k, v). dict_set k v) (case x of PDict items \<Rightarrow> items | _ \<Rightarrow> []) d"
  by (auto simp: dict_update_def split: pyval.splits if_splits)

lemma merge_ai_Inr:
  assumes "merge_ai ai d name = Inr (d', name')"
  shows "current_quarter d' =
           fold (\<lambda>(k, v). dict_set k v) (period_items ai ''Current Quarter'') (current_quarter d)"
    and "annual_data d' =
           fold (\<lambda>(k, v). dict_set k v) (period_items ai ''Annual Data'') (annual_data d)"
    and "name' = dict_get ai ''Company Name'' name"
  using assms
  by (auto simp: merge_ai_def period_items_def split: sum.splits dest!: dict_update_Inr)

section \<open>Concrete runs\<close>

lemma acme_text:
  "document_text (acme_doc rows) = ''Statement of Acme Ltd (Rs. in Lakhs) for the year ended 31-03-2024''"
  by (simp add: document_text_def acme_doc_def)

lemma acme_text_facts:
  "strip ''Statement of Acme Ltd (Rs. in Lakhs) for the year ended 31-03-2024'' \<noteq> []"
  "extract_company_name ''Statement of Acme Ltd (Rs. in Lakhs) for the year ended 31-03-2024'' = ''Acme Ltd''"
  "detect_fin_unit ''Statement of Acme Ltd (Rs. in Lakhs) for the year ended 31-03-2024'' = ''Lakhs''"
  "annual_year ''Statement of Acme Ltd (Rs. in Lakhs) for the year ended 31-03-2024'' = ''2024''"
  by code_simp+

lemma acme_located:
  "extract_table_or_text (acme_doc rows) =
     Inr (Table ([Some ''Particulars'', Some ''Quarter ended'', Some ''Year ended''] # rows))"
  by (simp add: acme_doc_def particulars_header)

lemma json_span_values:
  "json_span ''No figures found.'' = None"
  "json_span annual_answer = Some annual_answer"
  by code_simp+

lemma dec_float_500: "dec_float ''500'' = Some 500" "remove_commas ''500'' = ''500''"
  by (simp_all add: dec_float_def dec_unsigned_def is_digit_def digits_val_def digit_val_def
      remove_commas_def)

lemmas eval_local = local_data_def acme_located extract_financial_values_def hdr3_indices eval_row
  matched_total_revenue matched_particulars dec_float_values remove_commas_values dec_float_500

lemma local_zero_400:
  "local_data silent_env (acme_doc [[Some ''Total Revenue'', Some ''0'', Some ''400'']]) =
     Inr \<lparr>current_quarter = [(''Revenue'', PFloat 0), (''Operating Profit'', PNone), (''Net Profit'', PNone)],
          annual_data = [(''Revenue'', PFloat 400), (''Operating Profit'', PNone), (''Net Profit'', PNone)]\<rparr>"
  by (simp add: eval_local silent_env_def)

lemma local_zero_zero:
  "local_data silent_env (acme_doc [[Some ''Total Revenue'', Some ''0'', Some ''0'']]) =
     Inr \<lparr>current_quarter = [(''Revenue'', PFloat 0), (''Operating Profit'', PNone), (''Net Profit'', PNone)],
          annual_data = [(''Revenue'', PFloat 0), (''Operating Profit'', PNone), (''Net Profit'', PNone)]\<rparr>"
  by (simp add: eval_local silent_env_def)

lemma local_100_400:
  "local_data silent_env (acme_doc [[Some ''Total Revenue'', Some ''100'', Some ''400'']]) =
     Inr \<lparr>current_quarter = [(''Revenue'', PFloat 100), (''Operating Profit'', PNone), (''Net Profit'', PNone)],
          annual_data = [(''Revenue'', PFloat 400), (''Operating Profit'', PNone), (''Net Profit'', PNone)]\<rparr>"
  by (simp add: eval_local silent_env_def)

lemma local_blank_500:
  "local_data annual_env (acme_doc [[Some ''Total Revenue'', Some '''', Some ''500'']]) =
     Inr \<lparr>current_quarter = [(''Revenue'', PNone), (''Operating Profit'', PNone), (''Net Profit'', PNone)],
          annual_data = [(''Revenue'', PFloat 500), (''Operating Profit'', PNone), (''Net Profit'', PNone)]\<rparr>"
  by (simp add: eval_local annual_env_def)

lemma env_floats:
  "float_of silent_env = dec_float" "float_bool silent_env = rat_bool"
  "float_of annual_env = dec_float" "float_bool annual_env = rat_bool"
  by (simp_all add: silent_env_def annual_env_def)

lemma silent_answer: "use_gemini_extraction silent_env text = Inr None"
  by (simp add: use_gemini_extraction_def silent_env_def json_span_values)

lemma annual_answer_parsed:
  "use_gemini_extraction annual_env text =
     Inr (Some [(''Annual Data'', PDict [(''Revenue'', PInt 999), (''Operating Profit'', PInt 50)])])"
  by (simp add: use_gemini_extraction_def annual_env_def json_span_values)

lemma merged_zero_400:
  "merged_data silent_env (acme_doc [[Some ''Total Revenue'', Some ''0'', Some ''400'']]) =
     Inr (\<lparr>current_quarter = [(''Revenue'', PFloat 0), (''Operating Profit'', PNone), (''Net Profit'', PNone)],
           annual_data = [(''Revenue'', PFloat 400), (''Operating Profit'', PNone), (''Net Profit'', PNone)]\<rparr>,
          PStr ''Acme Ltd'')"
  by (simp add: merged_data_def local_zero_400 needs_fallback_def any_values_def env_floats rat_bool_def
      silent_answer or_empty_def merge_ai_def dict_get_def dict_update_def acme_text acme_text_facts)

lemma merged_zero_zero:
  "merged_data silent_env (acme_doc [[Some ''Total Revenue'', Some ''0'', Some ''0'']]) =
     Inr (\<lparr>current_quarter = [(''Revenue'', PFloat 0), (''Operating Profit'', PNone), (''Net Profit'', PNone)],
           annual_data = [(''Revenue'', PFloat 0), (''Operating Profit'', PNone), (''Net Profit'', PNone)]\<rparr>,
          PStr ''Acme Ltd'')"
  by (simp add: merged_data_def local_zero_zero needs_fallback_def any_values_def env_floats rat_bool_def
      silent_answer or_empty_def merge_ai_def dict_get_def dict_update_def acme_text acme_text_facts)

lemma merged_100_400:
  "merged_data silent_env (acme_doc [[Some ''Total Revenue'', Some ''100'', Some ''400'']]) =
     Inr (\<lparr>current_quarter = [(''Revenue'', PFloat 100), (''Operating Profit'', PNone), (''Net Profit'', PNone)],
           annual_data = [(''Revenue'', PFloat 400), (''Operating Profit'', PNone), (''Net Profit'', PNone)]\<rparr>,
          PStr ''Acme Ltd'')"
  by (simp add: merged_data_def local_100_400 needs_fallback_def any_values_def env_floats rat_bool_def
      acme_text acme_text_facts)

lemma merged_blank_500:
  "merged_data annual_env (acme_doc [[Some ''Total Revenue'', Some '''', Some ''500'']]) =
     Inr (\<lparr>current_quarter = [(''Revenue'', PNone), (''Operating Profit'', PNone), (''Net Profit'', PNone)],
           annual_data = [(''Revenue'', PInt 999), (''Operating Profit'', PInt 50), (''Net Profit'', PNone)]\<rparr>,
          PStr ''Acme Ltd'')"
  by (simp add: merged_data_def local_blank_500 needs_fallback_def any_values_def env_floats rat_bool_def
      annual_answer_parsed or_empty_def merge_ai_def dict_get_def dict_update_def dict_set_def
      acme_text acme_text_facts)

section \<open>The trigger of the fallback\<close>

text \<open>
  C2, as stated, fails.  For the document whose table has the row \<open>Total Revenue\<close> with the
  cells \<open>0\<close> and \<open>400\<close>, the local parse populates the current-quarter revenue (with the
  float zero) and the annual revenue (with 400), and the fallback is invoked all the same.
\<close>

theorem fallback_invoked_despite_local_values:
  "local_data silent_env (acme_doc [[Some ''Total Revenue'', Some ''0'', Some ''400'']]) =
     Inr \<lparr>current_quarter = [(''Revenue'', PFloat 0), (''Operating Profit'', PNone), (''Net Profit'', PNone)],
          annual_data = [(''Revenue'', PFloat 400), (''Operating Profit'', PNone), (''Net Profit'', PNone)]\<rparr> \<and>
   llm_requests (extract_fin_data silent_env
       (acme_doc [[Some ''Total Revenue'', Some ''0'', Some ''400'']])) =
     [''Statement of Acme Ltd (Rs. in Lakhs) for the year ended 31-03-2024'']"
  by (simp add: llm_requests_extract_fin_data local_zero_400 needs_fallback_def any_values_def
      env_floats rat_bool_def acme_text acme_text_facts)

text \<open>
  C2, amended.  \<open>extract_fin_data\<close> invokes the fallback, once and with the document text,
  exactly when the text is not blank, the local table parse raised no error, and every
  current-quarter field is unset or holds a float that counts as false (zero), whatever
  the annual fields hold; in particular it is not invoked when the local parse gave some
  current-quarter field a float that counts as true.
\<close>

theorem fallback_trigger:
  "llm_requests (extract_fin_data env doc) =
     (if strip (document_text doc) \<noteq> [] \<and>
         (\<exists>d. local_data env doc = Inr d \<and>
              (\<forall>k \<in> set metric_keys.
                 map_of (current_quarter d) k = Some PNone \<or>
                 (\<exists>x. map_of (current_quarter d) k = Some (PFloat x) \<and> \<not> float_bool env x)))
      then [document_text doc] else []) \<and>
   (\<forall>d k x. local_data env doc = Inr d \<and> k \<in> set metric_keys \<and>
        map_of (current_quarter d) k = Some (PFloat x) \<and> float_bool env x \<longrightarrow>
      llm_requests (extract_fin_data env doc) = [])"
proof -
  have eq: "needs_fallback env d =
      (\<forall>k \<in> set metric_keys.
         map_of (current_quarter d) k = Some PNone \<or>
         (\<exists>x. map_of (current_quarter d) k = Some (PFloat x) \<and> \<not> float_bool env x))"
    if "local_data env doc = Inr d" for d
    unfolding needs_fallback_def
    using not_any_values_shape [of "current_quarter d" "float_bool env"] local_data_shape [OF that]
    by blast
  have 1: "llm_requests (extract_fin_data env doc) =
     (if strip (document_text doc) \<noteq> [] \<and>
         (\<exists>d. local_data env doc = Inr d \<and>
              (\<forall>k \<in> set metric_keys.
                 map_of (current_quarter d) k = Some PNone \<or>
                 (\<exists>x. map_of (current_quarter d) k = Some (PFloat x) \<and> \<not> float_bool env x)))
      then [document_text doc] else [])"
    unfolding llm_requests_extract_fin_data using eq by auto
  have 2: "\<forall>d k x. local_data env doc = Inr d \<and> k \<in> set metric_keys \<and>
        map_of (current_quarter d) k = Some (PFloat x) \<and> float_bool env x \<longrightarrow>
      llm_requests (extract_fin_data env doc) = []"
  proof (intro allI impI)
    fix d k x
    assume a: "local_data env doc = Inr d \<and> k \<in> set metric_keys \<and>
        map_of (current_quarter d) k = Some (PFloat x) \<and> float_bool env x"
    then have "\<not> needs_fallback env d"
      unfolding eq [OF conjunct1 [OF a]] by force
    with a show "llm_requests (extract_fin_data env doc) = []"
      unfolding llm_requests_extract_fin_data by auto
  qed
  from 1 2 show ?thesis by (rule conjI)
qed

theorem fallback_trigger_witness:
  "llm_requests (extract_fin_data silent_env
       (acme_doc [[Some ''Total Revenue'', Some ''100'', Some ''400'']])) = [] \<and>
   llm_requests (extract_fin_data silent_env
       (acme_doc [[Some ''Total Revenue'', Some ''0'', Some ''400'']])) \<noteq> []"
proof -
  let ?a = "acme_doc [[Some ''Total Revenue'', Some ''100'', Some ''400'']]"
  let ?b = "acme_doc [[Some ''Total Revenue'', Some ''0'', Some ''400'']]"
  have k: "''Revenue'' \<in> set metric_keys" by (simp add: metric_keys_def)
  have t: "float_bool silent_env 100" by (simp add: env_floats rat_bool_def)
  have m: "map_of (current_quarter
      \<lparr>current_quarter = [(''Revenue'', PFloat 100), (''Operating Profit'', PNone), (''Net Profit'', PNone)],
       annual_data = [(''Revenue'', PFloat (400 :: rat)), (''Operating Profit'', PNone), (''Net Profit'', PNone)]\<rparr>)
      ''Revenue'' = Some (PFloat 100)" by simp
  from fallback_trigger [of silent_env ?a] local_100_400 k m t
  have 1: "llm_requests (extract_fin_data silent_env ?a) = []" by blast
  have z: "\<forall>k \<in> set metric_keys.
      map_of (current_quarter
        \<lparr>current_quarter = [(''Revenue'', PFloat 0), (''Operating Profit'', PNone), (''Net Profit'', PNone)],
         annual_data = [(''Revenue'', PFloat (400 :: rat)), (''Operating Profit'', PNone), (''Net Profit'', PNone)]\<rparr>) k
        = Some PNone \<or>
      (\<exists>x. map_of (current_quarter
        \<lparr>current_quarter = [(''Revenue'', PFloat 0), (''Operating Profit'', PNone), (''Net Profit'', PNone)],
         annual_data = [(''Revenue'', PFloat (400 :: rat)), (''Operating Profit'', PNone), (''Net Profit'', PNone)]\<rparr>) k
        = Some (PFloat x) \<and> \<not> float_bool silent_env x)"
    by (simp add: metric_keys_def env_floats rat_bool_def)
  have nb: "strip (document_text ?b) \<noteq> []" by (simp add: acme_text acme_text_facts)
  from fallback_trigger [of silent_env ?b] local_zero_400 z nb
  have 2: "llm_requests (extract_fin_data silent_env ?b) \<noteq> []" by auto
  from 1 2 show ?thesis by (rule conjI)
qed

section \<open>The final no-data test\<close>

lemma returned_zero_zero:
  "returned (extract_fin_data silent_env (acme_doc [[Some ''Total Revenue'', Some ''0'', Some ''0'']])) =
     Inr (ErrorObject 404 ''No financial data found in the document.'')"
  by (simp add: returned_extract_fin_data merged_zero_zero finish_def any_values_def env_floats
      rat_bool_def no_data_error_def acme_text acme_text_facts)

text \<open>
  C9, as stated, fails.  For the document whose table has the row \<open>Total Revenue\<close> with the
  cells \<open>0\<close> and \<open>0\<close>, and a language model that answers without an object, the
  current-quarter and the annual revenue hold the float zero after both stages, so the
  financial fields are not all empty; the function returns the error object.
\<close>

theorem error_object_despite_populated_fields:
  "merged_data silent_env (acme_doc [[Some ''Total Revenue'', Some ''0'', Some ''0'']]) =
     Inr (\<lparr>current_quarter = [(''Revenue'', PFloat 0), (''Operating Profit'', PNone), (''Net Profit'', PNone)],
           annual_data = [(''Revenue'', PFloat 0), (''Operating Profit'', PNone), (''Net Profit'', PNone)]\<rparr>,
          PStr ''Acme Ltd'') \<and>
   returned (extract_fin_data silent_env (acme_doc [[Some ''Total Revenue'', Some ''0'', Some ''0'']])) =
     Inr (ErrorObject 404 ''No financial data found in the document.'')"
  using merged_zero_zero returned_zero_zero by (rule conjI)

text \<open>
  C9, amended.  \<open>extract_fin_data\<close> returns the error object, with status 404 and the
  message \<open>No financial data found in the document.\<close>, when the document text is blank,
  and when after the local parse and the fallback every value held in the current-quarter
  and annual dictionaries counts as false (unset, zero or empty).  When these stages raise
  no error and some revenue, operating-profit or net-profit field of either period holds a
  value that counts as true, it returns the data record and not the error object; an error
  raised by these stages leaves the function.
\<close>

theorem no_data_error_conditions:
  "(strip (document_text doc) = [] \<longrightarrow>
      returned (extract_fin_data (env :: 'f env) doc) = Inr no_data_error) \<and>
   (strip (document_text doc) \<noteq> [] \<and> merged_data env doc = Inr (d, name) \<longrightarrow>
      ((\<forall>(k, v) \<in> set (current_quarter d) \<union> set (annual_data d). \<not> truthy (float_bool env) v) \<longrightarrow>
         returned (extract_fin_data env doc) = Inr no_data_error) \<and>
      ((\<exists>k \<in> set metric_keys. \<exists>v.
           (map_of (current_quarter d) k = Some v \<or> map_of (annual_data d) k = Some v) \<and>
           truthy (float_bool env) v) \<longrightarrow>
         (\<exists>r. returned (extract_fin_data env doc) = Inr (Financials r) \<and> company_name r = name))) \<and>
   (strip (document_text doc) \<noteq> [] \<and> merged_data env doc = Inl e \<longrightarrow>
      returned (extract_fin_data env doc) = Inl e) \<and>
   (no_data_error :: 'f response) = ErrorObject 404 ''No financial data found in the document.''"
proof -
  have 1: "strip (document_text doc) = [] \<longrightarrow> returned (extract_fin_data env doc) = Inr no_data_error"
    by (simp add: returned_extract_fin_data)
  have 2: "strip (document_text doc) \<noteq> [] \<and> merged_data env doc = Inr (d, name) \<longrightarrow>
      ((\<forall>(k, v) \<in> set (current_quarter d) \<union> set (annual_data d). \<not> truthy (float_bool env) v) \<longrightarrow>
         returned (extract_fin_data env doc) = Inr no_data_error) \<and>
      ((\<exists>k \<in> set metric_keys. \<exists>v.
           (map_of (current_quarter d) k = Some v \<or> map_of (annual_data d) k = Some v) \<and>
           truthy (float_bool env) v) \<longrightarrow>
         (\<exists>r. returned (extract_fin_data env doc) = Inr (Financials r) \<and> company_name r = name))"
  proof (intro impI conjI)
    assume a: "strip (document_text doc) \<noteq> [] \<and> merged_data env doc = Inr (d, name)"
    assume "\<forall>(k, v) \<in> set (current_quarter d) \<union> set (annual_data d). \<not> truthy (float_bool env) v"
    then have "\<not> any_values (float_bool env) (current_quarter d) \<and>
        \<not> any_values (float_bool env) (annual_data d)"
      by (auto simp: any_values_def list_ex_iff)
    with a show "returned (extract_fin_data env doc) = Inr no_data_error"
      by (simp add: returned_extract_fin_data finish_def)
  next
    assume a: "strip (document_text doc) \<noteq> [] \<and> merged_data env doc = Inr (d, name)"
    assume "\<exists>k \<in> set metric_keys. \<exists>v.
           (map_of (current_quarter d) k = Some v \<or> map_of (annual_data d) k = Some v) \<and>
           truthy (float_bool env) v"
    then obtain k v where kv: "map_of (current_quarter d) k = Some v \<or> map_of (annual_data d) k = Some v"
      and t: "truthy (float_bool env) v" by blast
    from kv have "(k, v) \<in> set (current_quarter d) \<or> (k, v) \<in> set (annual_data d)"
      by (auto dest: map_of_SomeD)
    with t have "any_values (float_bool env) (current_quarter d) \<or>
        any_values (float_bool env) (annual_data d)"
      by (auto simp: any_values_def list_ex_iff intro!: bexI [of _ "(k, v)"])
    with a show "\<exists>r. returned (extract_fin_data env doc) = Inr (Financials r) \<and> company_name r = name"
      by (auto simp: returned_extract_fin_data finish_def)
  qed
  have 3: "strip (document_text doc) \<noteq> [] \<and> merged_data env doc = Inl e \<longrightarrow>
      returned (extract_fin_data env doc) = Inl e"
    by (simp add: returned_extract_fin_data)
  have 4: "(no_data_error :: 'f response) = ErrorObject 404 ''No financial data found in the document.''"
    by (simp add: no_data_error_def)
  from 1 2 3 4 show ?thesis by blast
qed

theorem no_data_error_conditions_witness:
  "returned (extract_fin_data silent_env [\<lparr>page_text = None, page_tables = [], page_ocr = []\<rparr>]) =
     Inr (ErrorObject 404 ''No financial data found in the document.'') \<and>
   (\<exists>r. returned (extract_fin_data silent_env
       (acme_doc [[Some ''Total Revenue'', Some ''100'', Some ''400'']])) = Inr (Financials r) \<and>
        company_name r = PStr ''Acme Ltd'')"
proof -
  let ?blank = "[\<lparr>page_text = None, page_tables = [], page_ocr = []\<rparr>]"
  let ?doc = "acme_doc [[Some ''Total Revenue'', Some ''100'', Some ''400'']]"
  let ?d = "\<lparr>current_quarter = [(''Revenue'', PFloat 100), (''Operating Profit'', PNone), (''Net Profit'', PNone)],
           annual_data = [(''Revenue'', PFloat (400 :: rat)), (''Operating Profit'', PNone), (''Net Profit'', PNone)]\<rparr>"
  have b: "strip (document_text ?blank) = []"
    by (simp add: document_text_def strip_def)
  note w1 = no_data_error_conditions [of ?blank silent_env]
  from w1 b have 1: "returned (extract_fin_data silent_env ?blank) =
      Inr (ErrorObject 404 ''No financial data found in the document.'')"
    by simp
  have nb: "strip (document_text ?doc) \<noteq> []" by (simp add: acme_text acme_text_facts)
  have t: "\<exists>k \<in> set metric_keys. \<exists>v.
           (map_of (current_quarter ?d) k = Some v \<or> map_of (annual_data ?d) k = Some v) \<and>
           truthy (float_bool silent_env) v"
    by (rule bexI [of _ "''Revenue''"], rule exI [of _ "PFloat 100"])
      (simp_all add: metric_keys_def env_floats rat_bool_def)
  note w2 = no_data_error_conditions [of ?doc silent_env ?d "PStr ''Acme Ltd''"]
  from w2 nb merged_100_400 t
  have 2: "\<exists>r. returned (extract_fin_data silent_env ?doc) = Inr (Financials r) \<and>
      company_name r = PStr ''Acme Ltd''"
    by blast
  from 1 2 show ?thesis by (rule conjI)
qed

section \<open>The merge of the language-model answer\<close>

lemma returned_blank_500:
  "returned (extract_fin_data annual_env (acme_doc [[Some ''Total Revenue'', Some '''', Some ''500'']])) =
     Inr (Financials
       \<lparr>current_quarter = [(''Revenue'', PNone), (''Operating Profit'', PNone), (''Net Profit'', PNone),
                            (''Unit'', PStr ''Lakhs'')],
        annual_data = [(''Revenue'', PInt 999), (''Operating Profit'', PInt 50), (''Net Profit'', PNone),
                       (''Year'', PStr ''2024''), (''Unit'', PStr ''Lakhs'')],
        company_name = PStr ''Acme Ltd''\<rparr>)"
  by (simp add: returned_extract_fin_data merged_blank_500 finish_def any_values_def env_floats
      rat_bool_def dict_set_def acme_text acme_text_facts)

lemma requests_blank_500:
  "llm_requests (extract_fin_data annual_env (acme_doc [[Some ''Total Revenue'', Some '''', Some ''500'']])) =
     [''Statement of Acme Ltd (Rs. in Lakhs) for the year ended 31-03-2024'']"
  by (simp add: llm_requests_extract_fin_data local_blank_500 needs_fallback_def any_values_def
      env_floats rat_bool_def acme_text acme_text_facts)

text \<open>
  C1, as stated, fails.  For the document whose table has the row \<open>Total Revenue\<close> with an
  empty current-period cell and the annual cell \<open>500\<close>, the local parse sets the annual
  revenue to 500 and leaves the annual operating profit unset; the fallback is invoked,
  the language model answers with the annual revenue 999 and the annual operating profit
  50, and the merged annual data hold the revenue 999 and the operating profit 50: the
  local value is overwritten.
\<close>

theorem merge_overwrites_local_annual_value:
  "local_data annual_env (acme_doc [[Some ''Total Revenue'', Some '''', Some ''500'']]) =
     Inr \<lparr>current_quarter = [(''Revenue'', PNone), (''Operating Profit'', PNone), (''Net Profit'', PNone)],
          annual_data = [(''Revenue'', PFloat 500), (''Operating Profit'', PNone), (''Net Profit'', PNone)]\<rparr> \<and>
   llm_requests (extract_fin_data annual_env (acme_doc [[Some ''Total Revenue'', Some '''', Some ''500'']])) =
     [''Statement of Acme Ltd (Rs. in Lakhs) for the year ended 31-03-2024''] \<and>
   use_gemini_extraction annual_env ''Statement of Acme Ltd (Rs. in Lakhs) for the year ended 31-03-2024'' =
     Inr (Some [(''Annual Data'', PDict [(''Revenue'', PInt 999), (''Operating Profit'', PInt 50)])]) \<and>
   returned (extract_fin_data annual_env (acme_doc [[Some ''Total Revenue'', Some '''', Some ''500'']])) =
     Inr (Financials
       \<lparr>current_quarter = [(''Revenue'', PNone), (''Operating Profit'', PNone), (''Net Profit'', PNone),
                            (''Unit'', PStr ''Lakhs'')],
        annual_data = [(''Revenue'', PInt 999), (''Operating Profit'', PInt 50), (''Net Profit'', PNone),
                       (''Year'', PStr ''2024''), (''Unit'', PStr ''Lakhs'')],
        company_name = PStr ''Acme Ltd''\<rparr>)"
  using local_blank_500 requests_blank_500 annual_answer_parsed returned_blank_500 by blast

text \<open>
  C1, amended.  In every run in which the fallback is invoked and the merge raises no
  error, no current-quarter field holds a local value that counts as true (the fallback
  runs only then), and the merge is a dictionary update: in each period, every key that
  the answer holds for that period takes the answer's value (the last one, should the
  answer list a key twice), also where the local parse had populated the field, and every
  other key keeps its local value.  The company name is the answer's value under
  \<open>Company Name\<close> when the answer has that key, and the locally detected name otherwise.
\<close>

theorem merge_is_dictionary_update:
  assumes "llm_requests (extract_fin_data env doc) \<noteq> []"
    and "merged_data env doc = Inr (d', name')"
  shows "\<exists>d answer.
     local_data env doc = Inr d \<and>
     use_gemini_extraction env (document_text doc) = Inr answer \<and>
     (\<forall>k v. map_of (current_quarter d) k = Some v \<longrightarrow> \<not> truthy (float_bool env) v) \<and>
     (\<forall>k. map_of (current_quarter d') k =
        (case map_of (rev (period_items (or_empty answer) ''Current Quarter'')) k of
           Some v \<Rightarrow> Some v
         | None \<Rightarrow> map_of (current_quarter d) k)) \<and>
     (\<forall>k. map_of (annual_data d') k =
        (case map_of (rev (period_items (or_empty answer) ''Annual Data'')) k of
           Some v \<Rightarrow> Some v
         | None \<Rightarrow> map_of (annual_data d) k)) \<and>
     name' =
       (case map_of (or_empty answer) ''Company Name'' of
          Some v \<Rightarrow> v
        | None \<Rightarrow> PStr (extract_company_name (document_text doc))) \<and>
     returned (extract_fin_data env doc) = Inr (finish env (document_text doc) d' name')"
proof -
  from assms(1) obtain d where nb: "strip (document_text doc) \<noteq> []"
    and d: "local_data env doc = Inr d" and nf: "needs_fallback env d"
    unfolding llm_requests_extract_fin_data by (auto split: if_splits)
  from assms(2) d nf obtain answer where
    a: "use_gemini_extraction env (document_text doc) = Inr answer" and
    m: "merge_ai (or_empty answer) d (PStr (extract_company_name (document_text doc))) = Inr (d', name')"
    by (auto simp: merged_data_def split: sum.splits)
  have 1: "\<forall>k v. map_of (current_quarter d) k = Some v \<longrightarrow> \<not> truthy (float_bool env) v"
  proof (intro allI impI)
    fix k v assume "map_of (current_quarter d) k = Some v"
    then have "(k, v) \<in> set (current_quarter d)" by (rule map_of_SomeD)
    with nf show "\<not> truthy (float_bool env) v"
      by (auto simp: needs_fallback_def any_values_def list_ex_iff)
  qed
  have 2: "\<forall>k. map_of (current_quarter d') k =
        (case map_of (rev (period_items (or_empty answer) ''Current Quarter'')) k of
           Some v \<Rightarrow> Some v
         | None \<Rightarrow> map_of (current_quarter d) k)"
    by (simp add: merge_ai_Inr(1) [OF m] map_of_fold_dict_set)
  have 3: "\<forall>k. map_of (annual_data d') k =
        (case map_of (rev (period_items (or_empty answer) ''Annual Data'')) k of
           Some v \<Rightarrow> Some v
         | None \<Rightarrow> map_of (annual_data d) k)"
    by (simp add: merge_ai_Inr(2) [OF m] map_of_fold_dict_set)
  have 4: "name' =
       (case map_of (or_empty answer) ''Company Name'' of
          Some v \<Rightarrow> v
        | None \<Rightarrow> PStr (extract_company_name (document_text doc)))"
    by (simp add: merge_ai_Inr(3) [OF m] dict_get_def)
  have 5: "returned (extract_fin_data env doc) = Inr (finish env (document_text doc) d' name')"
    using nb assms(2) by (simp add: returned_extract_fin_data)
  from d a 1 2 3 4 5 show ?thesis by blast
qed


theorem merge_is_dictionary_update_witness:
  "\<exists>d answer.
     local_data annual_env (acme_doc [[Some ''Total Revenue'', Some '''', Some ''500'']]) = Inr d \<and>
     use_gemini_extraction annual_env
       (document_text (acme_doc [[Some ''Total Revenue'', Some '''', Some ''500'']])) = Inr answer \<and>
     map_of (annual_data d) ''Revenue'' = Some (PFloat 500) \<and>
     map_of (period_items (or_empty answer) ''Annual Data'') ''Revenue'' = Some (PInt 999) \<and>
     map_of [(''Revenue'', PInt 999), (''Operating Profit'', PInt 50), (''Net Profit'', PNone :: rat pyval)]
       ''Revenue'' =
       map_of (period_items (or_empty answer) ''Annual Data'') ''Revenue'' \<and>
     map_of [(''Revenue'', PInt 999), (''Operating Profit'', PInt 50), (''Net Profit'', PNone :: rat pyval)]
       ''Net Profit'' =
       map_of (annual_data d) ''Net Profit''"
proof -
  let ?doc = "acme_doc [[Some ''Total Revenue'', Some '''', Some ''500'']]"
  let ?d' = "\<lparr>current_quarter = [(''Revenue'', PNone), (''Operating Profit'', PNone), (''Net Profit'', PNone)],
           annual_data = [(''Revenue'', PInt 999), (''Operating Profit'', PInt 50),
                          (''Net Profit'', PNone :: rat pyval)]\<rparr>"
  have inv: "llm_requests (extract_fin_data annual_env ?doc) \<noteq> []"
    by (simp add: requests_blank_500)
  from merge_is_dictionary_update [OF inv merged_blank_500]
  obtain d answer where d: "local_data annual_env ?doc = Inr d"
    and a: "use_gemini_extraction annual_env (document_text ?doc) = Inr answer"
    and ad: "\<forall>k. map_of (annual_data ?d') k =
        (case map_of (rev (period_items (or_empty answer) ''Annual Data'')) k of
           Some v \<Rightarrow> Some v
         | None \<Rightarrow> map_of (annual_data d) k)"
    by blast
  from d have dv: "d = \<lparr>current_quarter = [(''Revenue'', PNone), (''Operating Profit'', PNone), (''Net Profit'', PNone)],
          annual_data = [(''Revenue'', PFloat 500), (''Operating Profit'', PNone), (''Net Profit'', PNone)]\<rparr>"
    by (simp add: local_blank_500)
  from a have av: "answer =
      Some [(''Annual Data'', PDict [(''Revenue'', PInt 999), (''Operating Profit'', PInt 50)])]"
    by (simp add: annual_answer_parsed)
  have items: "period_items (or_empty answer) ''Annual Data'' =
      [(''Revenue'', PInt 999), (''Operating Profit'', PInt 50)]"
    by (simp add: av or_empty_def period_items_def dict_get_def)
  have 1: "map_of (annual_data d) ''Revenue'' = Some (PFloat 500)" by (simp add: dv)
  have 2: "map_of (period_items (or_empty answer) ''Annual Data'') ''Revenue'' = Some (PInt 999)"
    by (simp add: items)
  from ad have "map_of (annual_data ?d') ''Revenue'' =
        (case map_of (rev (period_items (or_empty answer) ''Annual Data'')) ''Revenue'' of
           Some v \<Rightarrow> Some v
         | None \<Rightarrow> map_of (annual_data d) ''Revenue'')" by blast
  then have 3: "map_of [(''Revenue'', PInt 999), (''Operating Profit'', PInt 50), (''Net Profit'', PNone :: rat pyval)]
       ''Revenue'' = map_of (period_items (or_empty answer) ''Annual Data'') ''Revenue''"
    by (simp add: items)
  from ad have "map_of (annual_data ?d') ''Net Profit'' =
        (case map_of (rev (period_items (or_empty answer) ''Annual Data'')) ''Net Profit'' of
           Some v \<Rightarrow> Some v
         | None \<Rightarrow> map_of (annual_data d) ''Net Profit'')" by blast
  then have 4: "map_of [(''Revenue'', PInt 999), (''Operating Profit'', PInt 50), (''Net Profit'', PNone :: rat pyval)]
       ''Net Profit'' = map_of (annual_data d) ''Net Profit''"
    by (simp add: items)
  from d a 1 2 3 4 show ?thesis by blast
qed

end
